theory Spec2Isabelle
  imports Complex_Main "HOL-Library.Word" "HOL-Library.Multiset"
begin

section \<open>Status codes, type tags and location tags\<close>

text \<open>
  The status of every OSKAR entry point is an \<open>int\<close> behind a pointer: zero means
  that no error has occurred, any other value is an error code. The enumerators of
  \<open>oskar_global.h\<close> that the modelled sources assign are constructors of
  \<open>oskar_error\<close>; \<open>OSKAR_ERR_OTHER\<close> stands for every other non-zero code a caller may
  hand in. A status value is \<open>None\<close> for zero and \<open>Some e\<close> for the code \<open>e\<close>, so that
  the test \<open>if (*status)\<close> is the test \<open>st \<noteq> None\<close>.
\<close>

datatype oskar_error =
    OSKAR_ERR_FILE_IO
  | OSKAR_ERR_INVALID_ARGUMENT
  | OSKAR_ERR_MEMORY_ALLOC_FAILURE
  | OSKAR_ERR_TYPE_MISMATCH
  | OSKAR_ERR_LOCATION_MISMATCH
  | OSKAR_ERR_DIMENSION_MISMATCH
  | OSKAR_ERR_BAD_DATA_TYPE
  | OSKAR_ERR_BAD_LOCATION
  | OSKAR_ERR_CUDA_NOT_AVAILABLE
  | OSKAR_ERR_OTHER int

type_synonym status = "oskar_error option"

text \<open>A C pointer that the callee tests against null before use.\<close>

datatype 'a ptr = NULL | Ptr 'a

text \<open>The element type tag of a buffer; the eight tags the sources name.\<close>

datatype oskar_type =
    OSKAR_CHAR
  | OSKAR_INT
  | OSKAR_SINGLE
  | OSKAR_DOUBLE
  | OSKAR_SINGLE_COMPLEX
  | OSKAR_DOUBLE_COMPLEX
  | OSKAR_SINGLE_COMPLEX_MATRIX
  | OSKAR_DOUBLE_COMPLEX_MATRIX

text \<open>
  The location tag is an \<open>int\<close> as well; \<open>OSKAR_LOCATION_OTHER\<close> is any value that is
  neither \<open>OSKAR_CPU\<close> nor \<open>OSKAR_GPU\<close>.
\<close>

datatype oskar_location = OSKAR_CPU | OSKAR_GPU | OSKAR_LOCATION_OTHER int

text \<open>
  One element of a buffer is the list of its real components: one for a real scalar,
  two for a complex scalar, eight for a complex 2x2 matrix.
\<close>

type_synonym element = "real list"

record oskar_Mem =
  mem_type :: oskar_type
  mem_location :: oskar_location
  mem_data :: "element list"

definition oskar_mem_type :: "oskar_Mem \<Rightarrow> oskar_type" where
  "oskar_mem_type m = mem_type m"

definition oskar_mem_location :: "oskar_Mem \<Rightarrow> oskar_location" where
  "oskar_mem_location m = mem_location m"

definition oskar_mem_length :: "oskar_Mem \<Rightarrow> nat" where
  "oskar_mem_length m = length (mem_data m)"

section \<open>The dispatch entry point \<open>oskar_evaluate_auto_power\<close>\<close>

text \<open>
  The inner loops and the typed pointer accessors are declared in headers that are not
  part of the sources, and whether the accelerator back end exists is fixed when the
  library is built. They are the parameters of the model:
  \<^item> \<open>have_cuda\<close>: the macro \<open>OSKAR_HAVE_CUDA\<close> is defined;
  \<^item> the eight kernels, each from the source count, the Jones data and the old output
    data to the new output data;
  \<^item> \<open>mem_ptr_status t m st\<close>: the status left by the accessor of element type \<open>t\<close>
    (\<open>oskar_mem_float4c\<close>, \<open>oskar_mem_double2_const\<close>, ...) called on \<open>m\<close> with
    status \<open>st\<close>;
  \<^item> \<open>oskar_device_check_error\<close>: the status left by the device error check.
\<close>

type_synonym kernel = "int \<Rightarrow> element list \<Rightarrow> element list \<Rightarrow> element list"

record auto_power_env =
  have_cuda :: bool
  oskar_evaluate_auto_power_f :: kernel
  oskar_evaluate_auto_power_d :: kernel
  oskar_evaluate_auto_power_scalar_f :: kernel
  oskar_evaluate_auto_power_scalar_d :: kernel
  oskar_evaluate_auto_power_cuda_f :: kernel
  oskar_evaluate_auto_power_cuda_d :: kernel
  oskar_evaluate_auto_power_scalar_cuda_f :: kernel
  oskar_evaluate_auto_power_scalar_cuda_d :: kernel
  mem_ptr_status :: "oskar_type \<Rightarrow> oskar_Mem \<Rightarrow> status \<Rightarrow> status"
  oskar_device_check_error :: "status \<Rightarrow> status"

text \<open>
  One kernel call of the source: both accessors run (each may touch the status), then
  the kernel overwrites the data of \<open>out\<close>.
\<close>

definition call_kernel ::
  "auto_power_env \<Rightarrow> kernel \<Rightarrow> oskar_type \<Rightarrow> int \<Rightarrow> oskar_Mem \<Rightarrow> oskar_Mem \<Rightarrow> status
     \<Rightarrow> oskar_Mem \<times> status" where
  "call_kernel env k t num_sources jones out st =
     (out\<lparr>mem_data := k num_sources (mem_data jones) (mem_data out)\<rparr>,
      mem_ptr_status env t out (mem_ptr_status env t jones st))"

text \<open>
  The wrapper. It takes the output buffer and the status value and returns both as the
  call leaves them; the status pointer is dereferenced without a null test, so it is a
  value here.
\<close>

definition oskar_evaluate_auto_power ::
  "auto_power_env \<Rightarrow> int \<Rightarrow> oskar_Mem \<Rightarrow> oskar_Mem \<Rightarrow> status \<Rightarrow> oskar_Mem \<times> status" where
  "oskar_evaluate_auto_power env num_sources jones out st =
     (if st \<noteq> None then (out, st)
      else let type = oskar_mem_type jones; location = oskar_mem_location jones in
        if type \<noteq> oskar_mem_type out then (out, Some OSKAR_ERR_TYPE_MISMATCH)
        else if location \<noteq> oskar_mem_location out then (out, Some OSKAR_ERR_LOCATION_MISMATCH)
        else if location = OSKAR_CPU then
          (case type of
             OSKAR_SINGLE_COMPLEX_MATRIX \<Rightarrow>
               call_kernel env (oskar_evaluate_auto_power_f env) type num_sources jones out st
           | OSKAR_DOUBLE_COMPLEX_MATRIX \<Rightarrow>
               call_kernel env (oskar_evaluate_auto_power_d env) type num_sources jones out st
           | OSKAR_SINGLE_COMPLEX \<Rightarrow>
               call_kernel env (oskar_evaluate_auto_power_scalar_f env) type num_sources jones out st
           | OSKAR_DOUBLE_COMPLEX \<Rightarrow>
               call_kernel env (oskar_evaluate_auto_power_scalar_d env) type num_sources jones out st
           | _ \<Rightarrow> (out, Some OSKAR_ERR_BAD_DATA_TYPE))
        else if location = OSKAR_GPU then
          (if have_cuda env then
             (case type of
                OSKAR_SINGLE_COMPLEX_MATRIX \<Rightarrow>
                  (let (out', st') = call_kernel env (oskar_evaluate_auto_power_cuda_f env) type
                                       num_sources jones out st
                   in (out', oskar_device_check_error env st'))
              | OSKAR_DOUBLE_COMPLEX_MATRIX \<Rightarrow>
                  (let (out', st') = call_kernel env (oskar_evaluate_auto_power_cuda_d env) type
                                       num_sources jones out st
                   in (out', oskar_device_check_error env st'))
              | OSKAR_SINGLE_COMPLEX \<Rightarrow>
                  (let (out', st') = call_kernel env (oskar_evaluate_auto_power_scalar_cuda_f env) type
                                       num_sources jones out st
                   in (out', oskar_device_check_error env st'))
              | OSKAR_DOUBLE_COMPLEX \<Rightarrow>
                  (let (out', st') = call_kernel env (oskar_evaluate_auto_power_scalar_cuda_d env) type
                                       num_sources jones out st
                   in (out', oskar_device_check_error env st'))
              | _ \<Rightarrow> (out, Some OSKAR_ERR_BAD_DATA_TYPE))
           else (out, Some OSKAR_ERR_CUDA_NOT_AVAILABLE))
        else (out, st))"

text \<open>The four element types the switch of the wrapper has a case for.\<close>

definition supported_type :: "oskar_type \<Rightarrow> bool" where
  "supported_type t \<longleftrightarrow>
     t = OSKAR_SINGLE_COMPLEX_MATRIX \<or> t = OSKAR_DOUBLE_COMPLEX_MATRIX \<or>
     t = OSKAR_SINGLE_COMPLEX \<or> t = OSKAR_DOUBLE_COMPLEX"

text \<open>
  Concrete environments for evaluating the wrapper, one without and one with the
  accelerator back end: the kernels copy the Jones data and the accessors flag a buffer
  of another element type. \<open>mk_mem\<close> builds a buffer from its tags and its data.
\<close>

definition copy_kernel :: kernel where
  "copy_kernel n jones_data out_data = jones_data"

definition checked_ptr_status :: "oskar_type \<Rightarrow> oskar_Mem \<Rightarrow> status \<Rightarrow> status" where
  "checked_ptr_status t m st = (if mem_type m = t then st else Some OSKAR_ERR_TYPE_MISMATCH)"

definition env_no_cuda :: auto_power_env where
  "env_no_cuda = \<lparr> have_cuda = False,
     oskar_evaluate_auto_power_f = copy_kernel,
     oskar_evaluate_auto_power_d = copy_kernel,
     oskar_evaluate_auto_power_scalar_f = copy_kernel,
     oskar_evaluate_auto_power_scalar_d = copy_kernel,
     oskar_evaluate_auto_power_cuda_f = copy_kernel,
     oskar_evaluate_auto_power_cuda_d = copy_kernel,
     oskar_evaluate_auto_power_scalar_cuda_f = copy_kernel,
     oskar_evaluate_auto_power_scalar_cuda_d = copy_kernel,
     mem_ptr_status = checked_ptr_status,
     oskar_device_check_error = (\<lambda>st. st) \<rparr>"

definition env_cuda :: auto_power_env where
  "env_cuda = env_no_cuda \<lparr> have_cuda := True \<rparr>"

definition mk_mem :: "oskar_type \<Rightarrow> oskar_location \<Rightarrow> element list \<Rightarrow> oskar_Mem" where
  "mk_mem t l d = \<lparr> mem_type = t, mem_location = l, mem_data = d \<rparr>"

section \<open>The sky model: \<open>oskar_sky_override_polarisation\<close>\<close>

text \<open>
  Modelled from the spec: \<open>oskar_set_invalid_argument\<close> is declared in a header that is
  not among the sources. The spec's error taxonomy has \<open>InvalidArgument\<close> for a null
  required handle; the helper writes that code through the status pointer, which it
  can do only when the status pointer itself is not null.
\<close>

definition oskar_set_invalid_argument :: "status ptr \<Rightarrow> status ptr" where
  "oskar_set_invalid_argument status =
     (case status of NULL \<Rightarrow> NULL | Ptr st \<Rightarrow> Ptr (Some OSKAR_ERR_INVALID_ARGUMENT))"

text \<open>
  The fields of the sky model that the function reads or writes. The functions below
  are stated for every extension of the record, so the remaining fields of the
  structure ride along in the extension part.
\<close>

record oskar_Sky =
  sky_precision :: oskar_type
  sky_mem_location :: oskar_location
  sky_num_sources :: int
  sky_I :: oskar_Mem
  sky_Q :: oskar_Mem
  sky_U :: oskar_Mem

text \<open>
  The C library's random generator is global state, of some type \<open>'g\<close>: \<open>srand\<close>
  replaces it, and \<open>oskar_random_gaussian\<close> (not among the sources) draws from it,
  returning one number as its result and one through its pointer argument. The typed
  accessors are a parameter as before, and so are the \<open>cos\<close> and \<open>sin\<close> of the C
  mathematics library and the rounding \<open>sky_float_cast\<close> of a \<open>double\<close> that is stored
  through a \<open>float\<close> pointer. Floating-point values are real numbers here; the
  arithmetic on \<open>double\<close> values is exact.
\<close>

record 'g sky_env =
  srand :: "int \<Rightarrow> 'g"
  oskar_random_gaussian :: "'g \<Rightarrow> real \<times> real \<times> 'g"
  sky_mem_ptr_status :: "oskar_type \<Rightarrow> oskar_Mem \<Rightarrow> status \<Rightarrow> status"
  c_cos :: "real \<Rightarrow> real"
  c_sin :: "real \<Rightarrow> real"
  sky_float_cast :: "real \<Rightarrow> real"

text \<open>
  One pass through the body of the loop over the sources, for source \<open>i\<close>. The arrays
  that the source calls \<open>I_\<close>, \<open>Q_\<close> and \<open>U_\<close> are \<open>I_p\<close>, \<open>Q_p\<close> and \<open>U_p\<close> here;
  \<open>store\<close> is the conversion on assignment to an element of \<open>Q_\<close> or \<open>U_\<close>: none for the
  \<open>double\<close> arrays, the rounding to \<open>float\<close> for the \<open>float\<close> arrays.
\<close>

definition override_source ::
  "'g sky_env \<Rightarrow> (real \<Rightarrow> real) \<Rightarrow> real \<Rightarrow> real \<Rightarrow> real \<Rightarrow> real \<Rightarrow> element list \<Rightarrow> nat
     \<Rightarrow> element list \<times> element list \<times> 'g \<Rightarrow> element list \<times> element list \<times> 'g" where
  "override_source env store mean_pol_fraction std_pol_fraction mean_pol_angle_rad
       std_pol_angle_rad I_p i = (\<lambda>(Q_p, U_p, g).
     (let (r, a, g') = oskar_random_gaussian env g;
          pol_angle_rad = a * std_pol_angle_rad + mean_pol_angle_rad;
          pol_fraction = r * std_pol_fraction + mean_pol_fraction;
          pol_fraction = (if pol_fraction > 1 then 1 else pol_fraction);
          pol_fraction = (if pol_fraction < 0 then 0 else pol_fraction);
          pol_angle_rad = pol_angle_rad * 2
      in (Q_p[i := [store (pol_fraction * hd (I_p ! i) * c_cos env pol_angle_rad)]],
          U_p[i := [store (pol_fraction * hd (I_p ! i) * c_sin env pol_angle_rad)]],
          g')))"

text \<open>
  The branch for one precision: the three accessors, then the loop over
  \<open>i = 0, ..., num_sources - 1\<close>.
\<close>

definition override_arrays ::
  "'g sky_env \<Rightarrow> oskar_type \<Rightarrow> real \<Rightarrow> real \<Rightarrow> real \<Rightarrow> real \<Rightarrow> 'a oskar_Sky_scheme \<Rightarrow> 'g
     \<Rightarrow> status \<Rightarrow> 'a oskar_Sky_scheme \<times> 'g \<times> status" where
  "override_arrays env t mean_pol_fraction std_pol_fraction mean_pol_angle_rad std_pol_angle_rad
       sky g st =
     (let st = sky_mem_ptr_status env t (sky_I sky) st;
          st = sky_mem_ptr_status env t (sky_Q sky) st;
          st = sky_mem_ptr_status env t (sky_U sky) st;
          (Q_p, U_p, g') =
            fold (override_source env
                    (if t = OSKAR_SINGLE then sky_float_cast env else (\<lambda>x. x))
                    mean_pol_fraction std_pol_fraction mean_pol_angle_rad
                    std_pol_angle_rad (mem_data (sky_I sky)))
              [0 ..< nat (sky_num_sources sky)]
              (mem_data (sky_Q sky), mem_data (sky_U sky), g)
      in (sky\<lparr> sky_Q := (sky_Q sky)\<lparr> mem_data := Q_p \<rparr>,
               sky_U := (sky_U sky)\<lparr> mem_data := U_p \<rparr> \<rparr>, g', st))"

text \<open>
  The entry point. Its state is the sky model behind \<open>sky\<close>, the random generator and
  the status behind \<open>status\<close>; all three are returned as the call leaves them.
\<close>

definition oskar_sky_override_polarisation ::
  "'g sky_env \<Rightarrow> 'a oskar_Sky_scheme ptr \<Rightarrow> real \<Rightarrow> real \<Rightarrow> real \<Rightarrow> real \<Rightarrow> int \<Rightarrow> 'g
     \<Rightarrow> status ptr \<Rightarrow> 'a oskar_Sky_scheme ptr \<times> 'g \<times> status ptr" where
  "oskar_sky_override_polarisation env sky mean_pol_fraction std_pol_fraction
       mean_pol_angle_rad std_pol_angle_rad seed g status =
     (case sky of
        NULL \<Rightarrow> (sky, g, oskar_set_invalid_argument status)
      | Ptr s \<Rightarrow>
         (case status of
            NULL \<Rightarrow> (sky, g, oskar_set_invalid_argument status)
          | Ptr st \<Rightarrow>
              if st \<noteq> None then (sky, g, status)
              else if mean_pol_fraction < 0 then (sky, g, status)
              else let location = sky_mem_location s; type = sky_precision s in
                if location = OSKAR_CPU then
                  (let g = srand env seed in
                     if type = OSKAR_DOUBLE then
                       (let (s', g', st') = override_arrays env OSKAR_DOUBLE mean_pol_fraction
                              std_pol_fraction mean_pol_angle_rad std_pol_angle_rad s g st
                        in (Ptr s', g', Ptr st'))
                     else if type = OSKAR_SINGLE then
                       (let (s', g', st') = override_arrays env OSKAR_SINGLE mean_pol_fraction
                              std_pol_fraction mean_pol_angle_rad std_pol_angle_rad s g st
                        in (Ptr s', g', Ptr st'))
                     else (sky, g, Ptr (Some OSKAR_ERR_BAD_DATA_TYPE)))
                else (sky, g, Ptr (Some OSKAR_ERR_BAD_LOCATION))))"

text \<open>
  A concrete setting for evaluating the entry point: a linear congruential generator
  whose state is a natural number, polynomials in place of \<open>cos\<close> and \<open>sin\<close>, and a
  sky model of two sources in double precision on the CPU.
\<close>

definition lcg_env :: "nat sky_env" where
  "lcg_env = \<lparr> srand = (\<lambda>seed. nat \<bar>seed\<bar>),
     oskar_random_gaussian = (\<lambda>g. (real (g mod 7) / 7, real (g mod 5) / 5, (g * 75 + 74) mod 65537)),
     sky_mem_ptr_status = checked_ptr_status,
     c_cos = (\<lambda>x. 1 - x * x / 2),
     c_sin = (\<lambda>x. x - x * x * x / 6),
     sky_float_cast = (\<lambda>x. x) \<rparr>"

definition sky2 :: oskar_Sky where
  "sky2 = \<lparr> sky_precision = OSKAR_DOUBLE, sky_mem_location = OSKAR_CPU, sky_num_sources = 2,
     sky_I = mk_mem OSKAR_DOUBLE OSKAR_CPU [[1], [2]],
     sky_Q = mk_mem OSKAR_DOUBLE OSKAR_CPU [[0], [0]],
     sky_U = mk_mem OSKAR_DOUBLE OSKAR_CPU [[0], [0]] \<rparr>"

section \<open>Typed buffers: creation, resizing and copying\<close>

text \<open>
  Modelled from the spec: the macros \<open>oskar_mem_type_is_double\<close>,
  \<open>oskar_mem_type_is_single\<close>, \<open>oskar_mem_type_is_complex\<close> and
  \<open>oskar_mem_type_is_matrix\<close> of \<open>oskar_mem.h\<close> are not among the sources. The spec's
  element types are a real scalar, a complex scalar or a complex 2x2 matrix, each in
  single or in double precision; the predicates read the precision and the shape off
  the tag.
\<close>

definition oskar_mem_type_is_double :: "oskar_type \<Rightarrow> bool" where
  "oskar_mem_type_is_double t \<longleftrightarrow>
     t = OSKAR_DOUBLE \<or> t = OSKAR_DOUBLE_COMPLEX \<or> t = OSKAR_DOUBLE_COMPLEX_MATRIX"

definition oskar_mem_type_is_single :: "oskar_type \<Rightarrow> bool" where
  "oskar_mem_type_is_single t \<longleftrightarrow>
     t = OSKAR_SINGLE \<or> t = OSKAR_SINGLE_COMPLEX \<or> t = OSKAR_SINGLE_COMPLEX_MATRIX"

definition oskar_mem_type_is_complex :: "oskar_type \<Rightarrow> bool" where
  "oskar_mem_type_is_complex t \<longleftrightarrow>
     t = OSKAR_SINGLE_COMPLEX \<or> t = OSKAR_DOUBLE_COMPLEX \<or>
     t = OSKAR_SINGLE_COMPLEX_MATRIX \<or> t = OSKAR_DOUBLE_COMPLEX_MATRIX"

definition oskar_mem_type_is_matrix :: "oskar_type \<Rightarrow> bool" where
  "oskar_mem_type_is_matrix t \<longleftrightarrow>
     t = OSKAR_SINGLE_COMPLEX_MATRIX \<or> t = OSKAR_DOUBLE_COMPLEX_MATRIX"

text \<open>
  The number of real values in one element, computed as the loader computes the number
  of columns an array needs: one, twice that if complex, four times that if matrix.
\<close>

definition num_components :: "oskar_type \<Rightarrow> nat" where
  "num_components t =
     (let n = 1;
          n = (if oskar_mem_type_is_complex t then n * 2 else n);
          n = (if oskar_mem_type_is_matrix t then n * 4 else n)
      in n)"

definition zero_element :: "oskar_type \<Rightarrow> element" where
  "zero_element t = replicate (num_components t) 0"

text \<open>
  The buffer functions are defined in files that are not among the sources. Creation and
  copying are parameters, as is the allocator's answer \<open>can_alloc n\<close> to a request for
  \<open>n\<close> elements.
\<close>

record mem_env =
  can_alloc :: "nat \<Rightarrow> bool"
  oskar_mem_create :: "oskar_type \<Rightarrow> oskar_location \<Rightarrow> int \<Rightarrow> status \<Rightarrow> oskar_Mem ptr \<times> status"
  oskar_mem_copy :: "oskar_Mem \<Rightarrow> oskar_Mem \<Rightarrow> status \<Rightarrow> oskar_Mem \<times> status"

text \<open>
  Modelled from the spec: \<open>oskar_mem_realloc\<close> is not among the sources. The spec has
  \<open>resize(buffer, new_length) -> Result\<close>, which preserves the prefix, zero-fills the
  tail and reallocates if needed; a non-zero status on entry makes the call a no-op, and
  a failed allocation is reported as \<open>AllocationFailure\<close>. Type and location are fixed
  at creation.
\<close>

definition oskar_mem_realloc :: "mem_env \<Rightarrow> oskar_Mem \<Rightarrow> nat \<Rightarrow> status \<Rightarrow> oskar_Mem \<times> status" where
  "oskar_mem_realloc env mem num_elements st =
     (if st \<noteq> None then (mem, st)
      else if oskar_mem_length mem < num_elements \<and> \<not> can_alloc env num_elements
        then (mem, Some OSKAR_ERR_MEMORY_ALLOC_FAILURE)
      else (mem\<lparr> mem_data := take num_elements (mem_data mem) @
                     replicate (num_elements - oskar_mem_length mem) (zero_element (mem_type mem)) \<rparr>,
            st))"

text \<open>
  A concrete buffer environment for evaluation: every allocation of at most 1000
  elements succeeds, creation gives a zero-filled buffer, copying replaces the data of
  the destination when the element types agree.
\<close>

definition small_heap :: mem_env where
  "small_heap = \<lparr> can_alloc = (\<lambda>n. n \<le> 1000),
     oskar_mem_create = (\<lambda>t l n st.
        if st \<noteq> None then (NULL, st)
        else if n < 0 \<or> 1000 < n then (NULL, Some OSKAR_ERR_MEMORY_ALLOC_FAILURE)
        else (Ptr (mk_mem t l (replicate (nat n) (zero_element t))), st)),
     oskar_mem_copy = (\<lambda>dst src st.
        if st \<noteq> None then (dst, st)
        else if mem_type dst \<noteq> mem_type src then (dst, Some OSKAR_ERR_TYPE_MISMATCH)
        else (dst\<lparr> mem_data := mem_data src \<rparr>, st)) \<rparr>"

section \<open>The visibility structure: \<open>oskar_vis_create\<close>\<close>

text \<open>
  A C \<open>int\<close> is a 32-bit word: \<open>+\<close>, \<open>-\<close> and \<open>*\<close> wrap around, \<open>sint\<close> reads the
  value, and \<open>/\<close> truncates towards zero.
\<close>

type_synonym c_int = "32 word"

definition c_int_div :: "c_int \<Rightarrow> c_int \<Rightarrow> c_int" where
  "c_int_div a b = word_of_int (sgn (sint a) * sgn (sint b) * (\<bar>sint a\<bar> div \<bar>sint b\<bar>))"

record oskar_Vis =
  vis_num_stations :: c_int
  vis_num_channels :: c_int
  vis_num_times :: c_int
  vis_num_baselines :: c_int
  vis_freq_start_hz :: real
  vis_freq_inc_hz :: real
  vis_channel_bandwidth_hz :: real
  vis_time_start_mjd_utc :: real
  vis_time_inc_sec :: real
  vis_time_average_sec :: real
  vis_phase_centre_ra_deg :: real
  vis_phase_centre_dec_deg :: real
  vis_telescope_lon_deg :: real
  vis_telescope_lat_deg :: real
  vis_telescope_alt_metres :: real
  vis_settings_path :: "oskar_Mem ptr"
  vis_telescope_path :: "oskar_Mem ptr"
  vis_settings :: "oskar_Mem ptr"
  vis_station_x_offset_ecef_metres :: "oskar_Mem ptr"
  vis_station_y_offset_ecef_metres :: "oskar_Mem ptr"
  vis_station_z_offset_ecef_metres :: "oskar_Mem ptr"
  vis_station_x_enu_metres :: "oskar_Mem ptr"
  vis_station_y_enu_metres :: "oskar_Mem ptr"
  vis_station_z_enu_metres :: "oskar_Mem ptr"
  vis_station_lon_deg :: "oskar_Mem ptr"
  vis_station_lat_deg :: "oskar_Mem ptr"
  vis_station_orientation_x_deg :: "oskar_Mem ptr"
  vis_station_orientation_y_deg :: "oskar_Mem ptr"
  vis_baseline_uu_metres :: "oskar_Mem ptr"
  vis_baseline_vv_metres :: "oskar_Mem ptr"
  vis_baseline_ww_metres :: "oskar_Mem ptr"
  vis_amplitude :: "oskar_Mem ptr"

text \<open>
  The constructor. It has no test of the status value on entry; the status is passed
  on to each \<open>oskar_mem_create\<close>, which receives the \<open>int\<close> length as the call site has
  it. The structure itself is taken to be allocated.
\<close>

definition oskar_vis_create ::
  "mem_env \<Rightarrow> oskar_type \<Rightarrow> oskar_location \<Rightarrow> c_int \<Rightarrow> c_int \<Rightarrow> c_int \<Rightarrow> status ptr
     \<Rightarrow> oskar_Vis ptr \<times> status ptr" where
  "oskar_vis_create env amp_type location num_channels num_times num_stations status =
     (case status of
        NULL \<Rightarrow> (NULL, oskar_set_invalid_argument status)
      | Ptr st \<Rightarrow>
          if \<not> oskar_mem_type_is_double amp_type \<and> \<not> oskar_mem_type_is_single amp_type
            then (NULL, Ptr (Some OSKAR_ERR_BAD_DATA_TYPE))
          else if \<not> oskar_mem_type_is_complex amp_type
            then (NULL, Ptr (Some OSKAR_ERR_BAD_DATA_TYPE))
          else if location \<noteq> OSKAR_GPU \<and> location \<noteq> OSKAR_CPU
            then (NULL, Ptr (Some OSKAR_ERR_BAD_LOCATION))
          else
            (let type = (if oskar_mem_type_is_double amp_type then OSKAR_DOUBLE else OSKAR_SINGLE);
                 num_baselines = c_int_div (num_stations * (num_stations - 1)) 2;
                 num_amps = num_channels * num_times * num_baselines;
                 num_coords = num_times * num_baselines;
                 (settings_path, st) = oskar_mem_create env OSKAR_CHAR OSKAR_CPU 0 st;
                 (telescope_path, st) = oskar_mem_create env OSKAR_CHAR OSKAR_CPU 0 st;
                 (settings, st) = oskar_mem_create env OSKAR_CHAR OSKAR_CPU 0 st;
                 (x_offset, st) = oskar_mem_create env type location (sint num_stations) st;
                 (y_offset, st) = oskar_mem_create env type location (sint num_stations) st;
                 (z_offset, st) = oskar_mem_create env type location (sint num_stations) st;
                 (x_enu, st) = oskar_mem_create env type location (sint num_stations) st;
                 (y_enu, st) = oskar_mem_create env type location (sint num_stations) st;
                 (z_enu, st) = oskar_mem_create env type location (sint num_stations) st;
                 (lon, st) = oskar_mem_create env type location (sint num_stations) st;
                 (lat, st) = oskar_mem_create env type location (sint num_stations) st;
                 (orientation_x, st) = oskar_mem_create env type location (sint num_stations) st;
                 (orientation_y, st) = oskar_mem_create env type location (sint num_stations) st;
                 (uu, st) = oskar_mem_create env type location (sint num_coords) st;
                 (vv, st) = oskar_mem_create env type location (sint num_coords) st;
                 (ww, st) = oskar_mem_create env type location (sint num_coords) st;
                 (amplitude, st) = oskar_mem_create env amp_type location (sint num_amps) st
             in (Ptr \<lparr> vis_num_stations = num_stations,
                       vis_num_channels = num_channels,
                       vis_num_times = num_times,
                       vis_num_baselines = num_baselines,
                       vis_freq_start_hz = 0,
                       vis_freq_inc_hz = 0,
                       vis_channel_bandwidth_hz = 0,
                       vis_time_start_mjd_utc = 0,
                       vis_time_inc_sec = 0,
                       vis_time_average_sec = 0,
                       vis_phase_centre_ra_deg = 0,
                       vis_phase_centre_dec_deg = 0,
                       vis_telescope_lon_deg = 0,
                       vis_telescope_lat_deg = 0,
                       vis_telescope_alt_metres = 0,
                       vis_settings_path = settings_path,
                       vis_telescope_path = telescope_path,
                       vis_settings = settings,
                       vis_station_x_offset_ecef_metres = x_offset,
                       vis_station_y_offset_ecef_metres = y_offset,
                       vis_station_z_offset_ecef_metres = z_offset,
                       vis_station_x_enu_metres = x_enu,
                       vis_station_y_enu_metres = y_enu,
                       vis_station_z_enu_metres = z_enu,
                       vis_station_lon_deg = lon,
                       vis_station_lat_deg = lat,
                       vis_station_orientation_x_deg = orientation_x,
                       vis_station_orientation_y_deg = orientation_y,
                       vis_baseline_uu_metres = uu,
                       vis_baseline_vv_metres = vv,
                       vis_baseline_ww_metres = ww,
                       vis_amplitude = amplitude \<rparr>,
                 Ptr st)))"


section \<open>Baseline geometry\<close>

text \<open>
  Modelled from the spec: the loops that enumerate the baselines are not among the
  sources. The spec has the canonical order of the station pairs of \<open>n\<close> stations: for
  \<open>i = 0, ..., n - 2\<close>, for \<open>j = i + 1, ..., n - 1\<close>.
\<close>

definition baseline_pairs :: "nat \<Rightarrow> (nat \<times> nat) list" where
  "baseline_pairs n = concat (map (\<lambda>i. map (\<lambda>j. (i, j)) [Suc i ..< n]) [0 ..< n - 1])"

text \<open>
  The number of pairs whose first station is below \<open>i\<close>, and with it the position of
  the pair \<open>(i, j)\<close> in the canonical order.
\<close>

fun row_start :: "nat \<Rightarrow> nat \<Rightarrow> nat" where
  "row_start n 0 = 0"
| "row_start n (Suc i) = row_start n i + (n - 1 - i)"

definition baseline_index :: "nat \<Rightarrow> nat \<Rightarrow> nat \<Rightarrow> nat" where
  "baseline_index n i j = row_start n i + (j - i - 1)"

text \<open>
  Modelled from the spec: \<open>oskar_convert_station_uvw_to_baseline_uvw_f\<close> and
  \<open>oskar_convert_station_uvw_to_baseline_uvw_d\<close> are declared in the header
  \<open>oskar_convert_station_uvw_to_baseline_uvw.h\<close>; their definitions are not among the
  sources. The spec has the baseline (u,v,w) of the station pair \<open>(i, j)\<close>, \<open>i < j\<close>, equal
  to station \<open>i\<close> minus station \<open>j\<close>, the pairs taken in the canonical order; the header
  asks for output arrays pre-sized to \<open>N * (N - 1) / 2\<close>. The loops keep a running
  baseline counter \<open>b\<close> and write the three output arrays at \<open>b\<close>. The element type is
  any type with a subtraction, so that the single and the double precision function are
  both instances. The arrays are a triple \<open>(uu, vv, ww)\<close>.
\<close>

function convert_inner ::
  "'a::minus list \<Rightarrow> 'a list \<Rightarrow> 'a list \<Rightarrow> nat \<Rightarrow> nat \<Rightarrow> nat \<Rightarrow> nat
     \<Rightarrow> 'a list \<times> 'a list \<times> 'a list \<Rightarrow> ('a list \<times> 'a list \<times> 'a list) \<times> nat" where
  "convert_inner u v w n i j b (uu, vv, ww) =
     (if j < n then
        convert_inner u v w n i (Suc j) (Suc b)
          (uu[b := u ! i - u ! j], vv[b := v ! i - v ! j], ww[b := w ! i - w ! j])
      else ((uu, vv, ww), b))"
  by pat_completeness auto
termination
  by (relation "measure (\<lambda>(u, v, w, n, i, j, b, out). n - j)") auto

function convert_outer ::
  "'a::minus list \<Rightarrow> 'a list \<Rightarrow> 'a list \<Rightarrow> nat \<Rightarrow> nat \<Rightarrow> nat
     \<Rightarrow> 'a list \<times> 'a list \<times> 'a list \<Rightarrow> ('a list \<times> 'a list \<times> 'a list) \<times> nat" where
  "convert_outer u v w n i b out =
     (if Suc i < n then
        (let (out', b') = convert_inner u v w n i (Suc i) b out
         in convert_outer u v w n (Suc i) b' out')
      else (out, b))"
  by pat_completeness auto
termination
  by (relation "measure (\<lambda>(u, v, w, n, i, b, out). n - i)") auto

declare convert_inner.simps [simp del] convert_outer.simps [simp del]

text \<open>
  The conversion for \<open>num_stations\<close> stations (a C \<open>int\<close>; a count below one leaves no
  pair): the output arrays after the call.
\<close>

definition convert_station_uvw_to_baseline_uvw ::
  "int \<Rightarrow> 'a::minus list \<Rightarrow> 'a list \<Rightarrow> 'a list \<Rightarrow> 'a list \<times> 'a list \<times> 'a list
     \<Rightarrow> 'a list \<times> 'a list \<times> 'a list" where
  "convert_station_uvw_to_baseline_uvw num_stations u v w out =
     fst (convert_outer u v w (nat num_stations) 0 0 out)"


text \<open>
  What one run of the inner loop leaves in one output array: entered with station
  \<open>j\<close> and counter \<open>b\<close>, it puts \<open>f j, f (j + 1), ..., f (n - 1)\<close> at \<open>b, b + 1, ...\<close>
  and touches nothing else.
\<close>

definition row_written :: "(nat \<Rightarrow> 'a) \<Rightarrow> nat \<Rightarrow> nat \<Rightarrow> nat \<Rightarrow> 'a list \<Rightarrow> 'a list \<Rightarrow> bool" where
  "row_written f n j b xs xs' \<longleftrightarrow>
     length xs' = length xs \<and>
     (\<forall>k<length xs. xs' ! k = (if b \<le> k \<and> k < b + (n - j) then f (j + (k - b)) else xs ! k))"

text \<open>
  What the outer loop leaves in one output array when it is entered at station \<open>i0\<close>:
  the pairs from station \<open>i0\<close> on are written at their canonical positions, and the
  positions before the first and after the last of them are untouched.
\<close>

definition rows_written :: "(nat \<Rightarrow> nat \<Rightarrow> 'a) \<Rightarrow> nat \<Rightarrow> nat \<Rightarrow> 'a list \<Rightarrow> 'a list \<Rightarrow> bool" where
  "rows_written f n i0 xs xs' \<longleftrightarrow>
     length xs' = length xs \<and>
     (\<forall>k<length xs. k < row_start n i0 \<or> row_start n (n - 1) \<le> k \<longrightarrow> xs' ! k = xs ! k) \<and>
     (\<forall>i j. i0 \<le> i \<and> i < j \<and> j < n \<and> baseline_index n i j < length xs
        \<longrightarrow> xs' ! baseline_index n i j = f i j)"

section \<open>The ASCII loader: \<open>oskar_mem_load_ascii\<close>\<close>

text \<open>
  What the loader takes from outside the sources:
  \<^item> \<open>fopen_read name\<close>: the lines that \<open>oskar_getline\<close> reads from the file \<open>name\<close>
    opened for reading, or \<open>None\<close> when \<open>fopen\<close> fails;
  \<^item> \<open>parse_doubles s\<close>: the numbers that \<open>oskar_string_to_array_d\<close> finds in the
    string \<open>s\<close>;
  \<^item> \<open>float_cast\<close>: the conversion of a \<open>double\<close> to \<open>float\<close>;
  \<^item> \<open>int_cast\<close>: the conversion of a \<open>double\<close> to \<open>int\<close>, whatever the platform makes
    of a value outside the range of \<open>int\<close>.
  The local allocations of the function (\<open>calloc\<close>, \<open>realloc\<close> of the line and row
  buffers) are taken to succeed.
\<close>

record load_env =
  fopen_read :: "string \<Rightarrow> string list option"
  parse_doubles :: "string \<Rightarrow> real list"
  float_cast :: "real \<Rightarrow> real"
  int_cast :: "real \<Rightarrow> int"

text \<open>Writing the values \<open>xs\<close> into an array from position \<open>off\<close> on.\<close>

primrec write_from :: "real list \<Rightarrow> nat \<Rightarrow> real list \<Rightarrow> real list" where
  "write_from data off [] = data"
| "write_from data off (x # xs) = write_from (data[off := x]) (Suc off) xs"

text \<open>
  \<open>oskar_string_to_array_d(str, n, data + off)\<close>: at most \<open>n\<close> numbers of the string are
  stored from \<open>data[off]\<close> on, and their count is returned.
\<close>

definition oskar_string_to_array_d ::
  "load_env \<Rightarrow> string \<Rightarrow> nat \<Rightarrow> real list \<Rightarrow> nat \<Rightarrow> nat \<times> real list" where
  "oskar_string_to_array_d env str n data off =
     (let vals = take n (parse_doubles env str) in (length vals, write_from data off vals))"

text \<open>
  \<open>store_data\<close>: the value of row \<open>r\<close> is read from the row data at column \<open>c\<close>; the
  data, the column counter and the status are returned.
\<close>

definition store_data ::
  "load_env \<Rightarrow> element list \<Rightarrow> oskar_type \<Rightarrow> nat \<Rightarrow> nat \<Rightarrow> real list \<Rightarrow> status
     \<Rightarrow> element list \<times> nat \<times> status" where
  "store_data env data type r c row_data st =
     (case type of
        OSKAR_SINGLE \<Rightarrow> (data[r := [float_cast env (row_data ! c)]], c + 1, st)
      | OSKAR_DOUBLE \<Rightarrow> (data[r := [row_data ! c]], c + 1, st)
      | OSKAR_SINGLE_COMPLEX \<Rightarrow>
          (data[r := map (\<lambda>k. float_cast env (row_data ! (c + k))) [0 ..< 2]], c + 2, st)
      | OSKAR_DOUBLE_COMPLEX \<Rightarrow>
          (data[r := map (\<lambda>k. row_data ! (c + k)) [0 ..< 2]], c + 2, st)
      | OSKAR_SINGLE_COMPLEX_MATRIX \<Rightarrow>
          (data[r := map (\<lambda>k. float_cast env (row_data ! (c + k))) [0 ..< 8]], c + 8, st)
      | OSKAR_DOUBLE_COMPLEX_MATRIX \<Rightarrow>
          (data[r := map (\<lambda>k. row_data ! (c + k)) [0 ..< 8]], c + 8, st)
      | OSKAR_INT \<Rightarrow>
          (data[r := [of_int (int_cast env (of_int \<lfloor>row_data ! c + 1 / 2\<rfloor>))]], c + 1, st)
      | OSKAR_CHAR \<Rightarrow> (data, c, Some OSKAR_ERR_BAD_DATA_TYPE))"

text \<open>
  \<open>set_up_handles_and_defaults\<close>: the loop over the variable arguments, each an array
  and the string of its default values. The state is the handle array (null where the
  loop has not stored a handle), the default row, the minimum and maximum column
  counts, the start column and the status. A fresh cell of the default row is \<open>0\<close>.
\<close>

type_synonym setup_state =
  "oskar_Mem ptr list \<times> real list \<times> nat \<times> nat \<times> nat \<times> status"

fun set_up_handles_and_defaults ::
  "mem_env \<Rightarrow> load_env \<Rightarrow> (oskar_Mem \<times> string) list \<Rightarrow> setup_state \<Rightarrow> setup_state" where
  "set_up_handles_and_defaults menv env [] s = s"
| "set_up_handles_and_defaults menv env ((mem, def) # rest)
       (handles, row_defaults, num_cols_min, num_cols_max, col_start, st) =
     (if st \<noteq> None then
        (handles @ replicate (Suc (length rest)) NULL,
         row_defaults, num_cols_min, num_cols_max, col_start, st)
      else
        (let (h, st) =
               (if oskar_mem_location mem \<noteq> OSKAR_CPU
                then oskar_mem_create menv (oskar_mem_type mem) OSKAR_CPU
                       (int (oskar_mem_length mem)) st
                else (Ptr mem, st))
         in if st \<noteq> None then
              (handles @ h # replicate (length rest) NULL,
               row_defaults, num_cols_min, num_cols_max, col_start, st)
            else
              (let num_cols_needed =
                     num_components (case h of NULL \<Rightarrow> oskar_mem_type mem | Ptr m \<Rightarrow> oskar_mem_type m);
                   num_cols_max = num_cols_max + num_cols_needed;
                   row_defaults = row_defaults @ replicate num_cols_needed 0;
                   (num_defaults, row_defaults) =
                     oskar_string_to_array_d env def num_cols_needed row_defaults col_start;
                   (num_cols_min, st) =
                     (if num_defaults = 0 then
                        (num_cols_min + num_cols_needed,
                         if num_cols_min + num_cols_needed \<noteq> num_cols_max
                         then Some OSKAR_ERR_DIMENSION_MISMATCH else st)
                      else if num_defaults \<noteq> num_cols_needed
                        then (num_cols_min, Some OSKAR_ERR_TYPE_MISMATCH)
                      else (num_cols_min, st))
               in set_up_handles_and_defaults menv env rest
                    (handles @ [h], row_defaults, num_cols_min, num_cols_max,
                     col_start + num_cols_needed, st))))"

text \<open>
  The loop over the arrays for one row of the file: an array too short for the row is
  grown to \<open>row_index + 100\<close> elements, the loop is left if that fails, and the value is
  stored. A null handle is not dereferenced here.
\<close>

fun store_row ::
  "mem_env \<Rightarrow> load_env \<Rightarrow> nat \<Rightarrow> real list \<Rightarrow> oskar_Mem ptr list \<Rightarrow> nat \<Rightarrow> status
     \<Rightarrow> oskar_Mem ptr list \<times> status" where
  "store_row menv env row_index row_data [] col_index st = ([], st)"
| "store_row menv env row_index row_data (NULL # hs) col_index st = (NULL # hs, st)"
| "store_row menv env row_index row_data (Ptr m # hs) col_index st =
     (let (m, st, stop) =
            (if oskar_mem_length m \<le> row_index
             then (let (m, st) = oskar_mem_realloc menv m (row_index + 100) st
                   in (m, st, st \<noteq> None))
             else (m, st, False))
      in if stop then (Ptr m # hs, st)
         else
           (let (data, col_index, st) =
                  store_data env (mem_data m) (oskar_mem_type m) row_index col_index row_data st;
                (hs, st) = store_row menv env row_index row_data hs col_index st
            in (Ptr (m\<lparr> mem_data := data \<rparr>) # hs, st)))"

text \<open>
  A handle after some steps of the loader, compared with the handle before: it is still
  null or still an array, the array is at least as long, and every element it had,
  except possibly that of row \<open>r\<close>, is unchanged.
\<close>

definition rows_kept :: "nat \<Rightarrow> oskar_Mem ptr \<Rightarrow> oskar_Mem ptr \<Rightarrow> bool" where
  "rows_kept r h h' \<longleftrightarrow>
     (case h of
        NULL \<Rightarrow> h' = NULL
      | Ptr m \<Rightarrow> (case h' of
           NULL \<Rightarrow> False
         | Ptr m' \<Rightarrow> length (mem_data m) \<le> length (mem_data m') \<and>
             (\<forall>k < length (mem_data m). k \<noteq> r \<longrightarrow> mem_data m' ! k = mem_data m ! k)))"

text \<open>
  The loop over the lines of the file. The state is the row index, the handles, the row
  buffer and the status.
\<close>

type_synonym load_state = "nat \<times> oskar_Mem ptr list \<times> real list \<times> status"

fun load_lines ::
  "mem_env \<Rightarrow> load_env \<Rightarrow> nat \<Rightarrow> nat \<Rightarrow> real list \<Rightarrow> string list \<Rightarrow> load_state \<Rightarrow> load_state" where
  "load_lines menv env num_cols_min num_cols_max row_defaults [] s = s"
| "load_lines menv env num_cols_min num_cols_max row_defaults (line # rest)
       (row_index, handles, row_data, st) =
     (if st \<noteq> None then (row_index, handles, row_data, st)
      else
        (let (num_cols_read, row_data) =
               oskar_string_to_array_d env line num_cols_max row_data 0
         in if num_cols_read < num_cols_min then
              load_lines menv env num_cols_min num_cols_max row_defaults rest
                (row_index, handles, row_data, st)
            else
              (let row_data = fold (\<lambda>i d. d[i := row_defaults ! i])
                                [num_cols_read ..< num_cols_max] row_data;
                   (handles, st) = store_row menv env row_index row_data handles 0 st
               in load_lines menv env num_cols_min num_cols_max row_defaults rest
                    (Suc row_index, handles, row_data, st))))"

text \<open>Resizing every array to its final length.\<close>

fun resize_all :: "mem_env \<Rightarrow> nat \<Rightarrow> oskar_Mem ptr list \<Rightarrow> status \<Rightarrow> oskar_Mem ptr list \<times> status" where
  "resize_all menv row_index [] st = ([], st)"
| "resize_all menv row_index (NULL # hs) st =
     (let (hs, st) = resize_all menv row_index hs st in (NULL # hs, st))"
| "resize_all menv row_index (Ptr m # hs) st =
     (let (m, st) = oskar_mem_realloc menv m row_index st;
          (hs, st) = resize_all menv row_index hs st
      in (Ptr m # hs, st))"

text \<open>
  The last loop: an array that is not in CPU memory receives the contents of its
  temporary handle; an array in CPU memory is its own handle.
\<close>

fun copy_back ::
  "mem_env \<Rightarrow> (oskar_Mem \<times> string) list \<Rightarrow> oskar_Mem ptr list \<Rightarrow> status
     \<Rightarrow> oskar_Mem list \<times> status" where
  "copy_back menv ((mem, def) # rest) (h # hs) st =
     (let (mem, st) =
            (if oskar_mem_location mem \<noteq> OSKAR_CPU
             then (case h of NULL \<Rightarrow> (mem, st) | Ptr m \<Rightarrow> oskar_mem_copy menv mem m st)
             else (case h of NULL \<Rightarrow> (mem, st) | Ptr m \<Rightarrow> (m, st)));
          (mems, st) = copy_back menv rest hs st
      in (mem # mems, st))"
| "copy_back menv args hs st = (map fst args, st)"

text \<open>
  The entry point. The variable arguments are the list \<open>args\<close> and \<open>num_mem\<close> is its
  length. The call returns the number of rows, the caller's arrays and the status
  pointer as it leaves them.
\<close>

definition oskar_mem_load_ascii ::
  "mem_env \<Rightarrow> load_env \<Rightarrow> string ptr \<Rightarrow> (oskar_Mem \<times> string) list \<Rightarrow> status ptr
     \<Rightarrow> nat \<times> oskar_Mem list \<times> status ptr" where
  "oskar_mem_load_ascii menv env filename args status =
     (case (filename, status) of
        (Ptr name, Ptr st) \<Rightarrow>
          if length args = 0 then (0, map fst args, oskar_set_invalid_argument status)
          else if st \<noteq> None then (0, map fst args, status)
          else
            (case fopen_read env name of
               None \<Rightarrow> (0, map fst args, Ptr (Some OSKAR_ERR_FILE_IO))
             | Some lines \<Rightarrow>
                 (let (handles, row_defaults, num_cols_min, num_cols_max, col_start, st) =
                        set_up_handles_and_defaults menv env args ([], [], 0, 0, 0, st);
                      row_data = replicate num_cols_max 0;
                      (row_index, handles, row_data, st) =
                        load_lines menv env num_cols_min num_cols_max row_defaults lines
                          (0, handles, row_data, st);
                      (handles, st) = resize_all menv row_index handles st;
                      (mems, st) = copy_back menv args handles st
                  in (row_index, mems, Ptr st)))
      | _ \<Rightarrow> (0, map fst args, oskar_set_invalid_argument status))"

text \<open>
  A concrete loader environment for evaluation: one file of three lines, whose numbers
  are given line by line.
\<close>

definition sample_files :: load_env where
  "sample_files = \<lparr>
     fopen_read = (\<lambda>name. if name = ''sky.txt'' then Some [''1 2'', ''# comment'', ''3''] else None),
     parse_doubles = (\<lambda>s. if s = ''1 2'' then [1, 2] else if s = ''3'' then [3]
                           else if s = ''9'' then [9] else []),
     float_cast = (\<lambda>x. x),
     int_cast = (\<lambda>x. \<lfloor>x\<rfloor>) \<rparr>"

section \<open>The smearing model\<close>

text \<open>
  Modelled from the spec: no file of the smearing model is among the sources. The spec
  has the bandwidth smearing attenuation \<open>sinc (\<Delta>\<nu> \<cdot> \<Delta>\<tau>)\<close> of the channel bandwidth and
  the delay, the time-average smearing attenuation \<open>sinc (\<Delta>t \<cdot> fringe-rate)\<close> of the
  integration time and the fringe rate, \<open>sinc 0 = 1\<close> by convention, and a single real
  factor that is multiplied into the correlated value; the single factor for both
  effects is their product. The spec writes \<open>sinc\<close> and does not say which of the two
  usual conventions it means, \<open>sin x / x\<close> or \<open>sin (\<pi> x) / (\<pi> x)\<close>. The model carries the
  convention as a scale \<open>k\<close> of the argument: \<open>k = 1\<close> is the first and \<open>k = \<pi>\<close> the second.
  The values are real numbers.
\<close>

definition sinc :: "real \<Rightarrow> real \<Rightarrow> real" where
  "sinc k x = (if k * x = 0 then 1 else sin (k * x) / (k * x))"

definition bandwidth_smearing :: "real \<Rightarrow> real \<Rightarrow> real \<Rightarrow> real" where
  "bandwidth_smearing k channel_bandwidth delay = sinc k (channel_bandwidth * delay)"

definition time_smearing :: "real \<Rightarrow> real \<Rightarrow> real \<Rightarrow> real" where
  "time_smearing k integration_time fringe_rate = sinc k (integration_time * fringe_rate)"

definition smearing_factor :: "real \<Rightarrow> real \<Rightarrow> real \<Rightarrow> real \<Rightarrow> real \<Rightarrow> real" where
  "smearing_factor k channel_bandwidth delay integration_time fringe_rate =
     bandwidth_smearing k channel_bandwidth delay * time_smearing k integration_time fringe_rate"

section \<open>Element algebra and the correlator\<close>

text \<open>
  A complex 2x2 matrix, with the four components \<open>a\<close>, \<open>b\<close>, \<open>c\<close>, \<open>d\<close> that
  \<open>store_data\<close> fills for the matrix types, and its elementwise addition.
\<close>

datatype complex4 = Complex4 (m_a: complex) (m_b: complex) (m_c: complex) (m_d: complex)

instantiation complex4 :: comm_monoid_add
begin

definition zero_complex4 :: complex4 where
  "zero_complex4 = Complex4 0 0 0 0"

definition plus_complex4 :: "complex4 \<Rightarrow> complex4 \<Rightarrow> complex4" where
  "plus_complex4 x y = Complex4 (m_a x + m_a y) (m_b x + m_b y) (m_c x + m_c y) (m_d x + m_d y)"

instance
  by standard (simp_all add: zero_complex4_def plus_complex4_def add.assoc add.commute)

end

text \<open>
  Modelled from the spec: no file of the element algebra or of the cross-correlation
  loops is among the sources. The spec has the scalar product \<open>a \<cdot> conj b\<close>, the matrix
  product \<open>A \<cdot> B\<^sup>H\<close> with the Hermitian transpose, and the scaling of a scalar or a
  matrix by a real attenuation factor. Numbers are exact complex numbers; rounding is
  not modelled.
\<close>

definition scalar_mul_herm :: "complex \<Rightarrow> complex \<Rightarrow> complex" where
  "scalar_mul_herm x y = x * cnj y"

definition matrix_mul_herm :: "complex4 \<Rightarrow> complex4 \<Rightarrow> complex4" where
  "matrix_mul_herm x y =
     Complex4 (m_a x * cnj (m_a y) + m_b x * cnj (m_b y))
              (m_a x * cnj (m_c y) + m_b x * cnj (m_d y))
              (m_c x * cnj (m_a y) + m_d x * cnj (m_b y))
              (m_c x * cnj (m_c y) + m_d x * cnj (m_d y))"

definition scalar_scale :: "real \<Rightarrow> complex \<Rightarrow> complex" where
  "scalar_scale r x = of_real r * x"

definition matrix_scale :: "real \<Rightarrow> complex4 \<Rightarrow> complex4" where
  "matrix_scale r x =
     Complex4 (of_real r * m_a x) (of_real r * m_b x) (of_real r * m_c x) (of_real r * m_d x)"

text \<open>
  Modelled from the spec: for each station pair \<open>(i, j)\<close>, \<open>i < j\<close>, in the canonical
  order, the accumulator starts at zero; for each source \<open>s\<close> in ascending order the
  product of \<open>Jones(i, s)\<close> and \<open>Jones(j, s)\<close> is scaled by the smearing factor of the
  baseline and the source and added; the sum is written into the output at the canonical
  index of the baseline. The product and the scaling are parameters, so that the scalar
  and the matrix correlator are instances; \<open>jones i s\<close> is the Jones term of station \<open>i\<close>
  and source \<open>s\<close>, and \<open>smearing i j s\<close> the factor of the smearing model.
\<close>

definition baseline_accumulate ::
  "('e \<Rightarrow> 'e \<Rightarrow> 'e) \<Rightarrow> (real \<Rightarrow> 'e \<Rightarrow> 'e) \<Rightarrow> (nat \<Rightarrow> 's \<Rightarrow> 'e) \<Rightarrow> (nat \<Rightarrow> nat \<Rightarrow> 's \<Rightarrow> real)
     \<Rightarrow> 's list \<Rightarrow> nat \<Rightarrow> nat \<Rightarrow> 'e::comm_monoid_add" where
  "baseline_accumulate mul_herm scale jones smearing sources i j =
     fold (\<lambda>s acc. acc + scale (smearing i j s) (mul_herm (jones i s) (jones j s))) sources 0"

definition correlate ::
  "('e \<Rightarrow> 'e \<Rightarrow> 'e) \<Rightarrow> (real \<Rightarrow> 'e \<Rightarrow> 'e) \<Rightarrow> (nat \<Rightarrow> 's \<Rightarrow> 'e) \<Rightarrow> (nat \<Rightarrow> nat \<Rightarrow> 's \<Rightarrow> real)
     \<Rightarrow> 's list \<Rightarrow> nat \<Rightarrow> 'e list \<Rightarrow> 'e::comm_monoid_add list" where
  "correlate mul_herm scale jones smearing sources n output =
     fold (\<lambda>(i, j) out.
             out[baseline_index n i j :=
                   baseline_accumulate mul_herm scale jones smearing sources i j])
       (baseline_pairs n) output"

definition correlate_scalar ::
  "(nat \<Rightarrow> 's \<Rightarrow> complex) \<Rightarrow> (nat \<Rightarrow> nat \<Rightarrow> 's \<Rightarrow> real) \<Rightarrow> 's list \<Rightarrow> nat \<Rightarrow> complex list
     \<Rightarrow> complex list" where
  "correlate_scalar = correlate scalar_mul_herm scalar_scale"

definition correlate_matrix ::
  "(nat \<Rightarrow> 's \<Rightarrow> complex4) \<Rightarrow> (nat \<Rightarrow> nat \<Rightarrow> 's \<Rightarrow> real) \<Rightarrow> 's list \<Rightarrow> nat \<Rightarrow> complex4 list
     \<Rightarrow> complex4 list" where
  "correlate_matrix = correlate matrix_mul_herm matrix_scale"

text \<open>
  A concrete setting for evaluation: three stations, sources numbered from zero, a
  scalar Jones term and a smearing factor given by formulas.
\<close>

definition sample_jones :: "nat \<Rightarrow> nat \<Rightarrow> complex" where
  "sample_jones i s = Complex (real (i + 1)) (real s)"

definition sample_smearing :: "nat \<Rightarrow> nat \<Rightarrow> nat \<Rightarrow> real" where
  "sample_smearing i j s = 1 / real (i + j + s + 1)"

section \<open>Properties of the dispatch entry point\<close>

lemma auto_power_status_set_noop:
  "st \<noteq> None \<Longrightarrow> oskar_evaluate_auto_power env n jones out st = (out, st)"
  by (simp add: oskar_evaluate_auto_power_def)

lemma auto_power_type_mismatch:
  "oskar_mem_type jones \<noteq> oskar_mem_type out \<Longrightarrow>
   oskar_evaluate_auto_power env n jones out None = (out, Some OSKAR_ERR_TYPE_MISMATCH)"
  by (simp add: oskar_evaluate_auto_power_def Let_def)

lemma auto_power_location_mismatch:
  "oskar_mem_type jones = oskar_mem_type out \<Longrightarrow>
   oskar_mem_location jones \<noteq> oskar_mem_location out \<Longrightarrow>
   oskar_evaluate_auto_power env n jones out None = (out, Some OSKAR_ERR_LOCATION_MISMATCH)"
  by (simp add: oskar_evaluate_auto_power_def Let_def)

lemma auto_power_cpu_bad_type:
  "oskar_mem_type jones = oskar_mem_type out \<Longrightarrow>
   oskar_mem_location jones = oskar_mem_location out \<Longrightarrow>
   oskar_mem_location jones = OSKAR_CPU \<Longrightarrow>
   \<not> supported_type (oskar_mem_type jones) \<Longrightarrow>
   oskar_evaluate_auto_power env n jones out None = (out, Some OSKAR_ERR_BAD_DATA_TYPE)"
  by (cases "oskar_mem_type out")
     (simp_all add: oskar_evaluate_auto_power_def Let_def supported_type_def)

lemma auto_power_gpu_bad_type:
  "oskar_mem_type jones = oskar_mem_type out \<Longrightarrow>
   oskar_mem_location jones = oskar_mem_location out \<Longrightarrow>
   oskar_mem_location jones = OSKAR_GPU \<Longrightarrow>
   have_cuda env \<Longrightarrow>
   \<not> supported_type (oskar_mem_type jones) \<Longrightarrow>
   oskar_evaluate_auto_power env n jones out None = (out, Some OSKAR_ERR_BAD_DATA_TYPE)"
  by (cases "oskar_mem_type out")
     (simp_all add: oskar_evaluate_auto_power_def Let_def supported_type_def)

lemma auto_power_gpu_no_backend:
  "oskar_mem_type jones = oskar_mem_type out \<Longrightarrow>
   oskar_mem_location jones = oskar_mem_location out \<Longrightarrow>
   oskar_mem_location jones = OSKAR_GPU \<Longrightarrow>
   \<not> have_cuda env \<Longrightarrow>
   oskar_evaluate_auto_power env n jones out None = (out, Some OSKAR_ERR_CUDA_NOT_AVAILABLE)"
  by (simp add: oskar_evaluate_auto_power_def Let_def)

text \<open>
  Claim C1, as the code has it. When the status is zero on entry: if the element type of
  the output buffer differs from that of the Jones buffer, the call returns the output
  buffer as it was and the status \<open>OSKAR_ERR_TYPE_MISMATCH\<close>; if the types agree and the
  locations differ, it returns the output buffer as it was and the status
  \<open>OSKAR_ERR_LOCATION_MISMATCH\<close>.
\<close>

theorem C1_mismatch_reported_output_kept:
  "(oskar_mem_type out \<noteq> oskar_mem_type jones \<longrightarrow>
      oskar_evaluate_auto_power env n jones out None = (out, Some OSKAR_ERR_TYPE_MISMATCH)) \<and>
   (oskar_mem_type out = oskar_mem_type jones \<and>
    oskar_mem_location out \<noteq> oskar_mem_location jones \<longrightarrow>
      oskar_evaluate_auto_power env n jones out None = (out, Some OSKAR_ERR_LOCATION_MISMATCH))"
proof (intro conjI impI)
  assume "oskar_mem_type out \<noteq> oskar_mem_type jones"
  then have "oskar_mem_type jones \<noteq> oskar_mem_type out" by simp
  then show "oskar_evaluate_auto_power env n jones out None = (out, Some OSKAR_ERR_TYPE_MISMATCH)"
    by (rule auto_power_type_mismatch)
next
  assume h: "oskar_mem_type out = oskar_mem_type jones \<and>
             oskar_mem_location out \<noteq> oskar_mem_location jones"
  then have "oskar_mem_type jones = oskar_mem_type out"
    and "oskar_mem_location jones \<noteq> oskar_mem_location out" by auto
  then show "oskar_evaluate_auto_power env n jones out None = (out, Some OSKAR_ERR_LOCATION_MISMATCH)"
    by (rule auto_power_location_mismatch)
qed

theorem C1_mismatch_reported_output_kept_witness:
  "oskar_evaluate_auto_power env_no_cuda 3
     (mk_mem OSKAR_SINGLE_COMPLEX OSKAR_CPU [[1, 2]])
     (mk_mem OSKAR_DOUBLE_COMPLEX OSKAR_CPU [[0, 0]]) None
     = (mk_mem OSKAR_DOUBLE_COMPLEX OSKAR_CPU [[0, 0]], Some OSKAR_ERR_TYPE_MISMATCH) \<and>
   oskar_evaluate_auto_power env_no_cuda 3
     (mk_mem OSKAR_SINGLE_COMPLEX OSKAR_CPU [[1, 2]])
     (mk_mem OSKAR_SINGLE_COMPLEX OSKAR_GPU [[0, 0]]) None
     = (mk_mem OSKAR_SINGLE_COMPLEX OSKAR_GPU [[0, 0]], Some OSKAR_ERR_LOCATION_MISMATCH)"
  using C1_mismatch_reported_output_kept
          [of "mk_mem OSKAR_DOUBLE_COMPLEX OSKAR_CPU [[0, 0]]"
              "mk_mem OSKAR_SINGLE_COMPLEX OSKAR_CPU [[1, 2]]" env_no_cuda 3]
        C1_mismatch_reported_output_kept
          [of "mk_mem OSKAR_SINGLE_COMPLEX OSKAR_GPU [[0, 0]]"
              "mk_mem OSKAR_SINGLE_COMPLEX OSKAR_CPU [[1, 2]]" env_no_cuda 3]
  by (simp add: mk_mem_def oskar_mem_type_def oskar_mem_location_def)

text \<open>
  Claim C1 as stated speaks of every call. A call whose status is already non-zero
  returns at once: with the status \<open>OSKAR_ERR_FILE_IO\<close> on entry and buffers of different
  element types the status stays \<open>OSKAR_ERR_FILE_IO\<close> and is not set to the type-mismatch
  error.
\<close>

theorem C1_every_call_counterexample:
  "oskar_mem_type (mk_mem OSKAR_DOUBLE_COMPLEX OSKAR_CPU [[0, 0]])
     \<noteq> oskar_mem_type (mk_mem OSKAR_SINGLE_COMPLEX OSKAR_CPU [[1, 2]]) \<and>
   snd (oskar_evaluate_auto_power env_no_cuda 3
     (mk_mem OSKAR_SINGLE_COMPLEX OSKAR_CPU [[1, 2]])
     (mk_mem OSKAR_DOUBLE_COMPLEX OSKAR_CPU [[0, 0]]) (Some OSKAR_ERR_FILE_IO))
     = Some OSKAR_ERR_FILE_IO \<and>
   snd (oskar_evaluate_auto_power env_no_cuda 3
     (mk_mem OSKAR_SINGLE_COMPLEX OSKAR_CPU [[1, 2]])
     (mk_mem OSKAR_DOUBLE_COMPLEX OSKAR_CPU [[0, 0]]) (Some OSKAR_ERR_FILE_IO))
     \<noteq> Some OSKAR_ERR_TYPE_MISMATCH"
  by (simp add: oskar_evaluate_auto_power_def mk_mem_def oskar_mem_type_def)

text \<open>
  Claim C10, as the code has it. When the status is zero on entry and the two buffers
  differ both in element type and in location, the status returned is
  \<open>OSKAR_ERR_TYPE_MISMATCH\<close> and not \<open>OSKAR_ERR_LOCATION_MISMATCH\<close>: the type test comes
  first.
\<close>

theorem C10_type_check_precedes_location_check:
  assumes "oskar_mem_type out \<noteq> oskar_mem_type jones"
    and "oskar_mem_location out \<noteq> oskar_mem_location jones"
  shows "snd (oskar_evaluate_auto_power env n jones out None) = Some OSKAR_ERR_TYPE_MISMATCH \<and>
         snd (oskar_evaluate_auto_power env n jones out None) \<noteq> Some OSKAR_ERR_LOCATION_MISMATCH"
proof -
  from assms(1) have "oskar_mem_type jones \<noteq> oskar_mem_type out" by simp
  then have "oskar_evaluate_auto_power env n jones out None = (out, Some OSKAR_ERR_TYPE_MISMATCH)"
    by (rule auto_power_type_mismatch)
  then show ?thesis by simp
qed

theorem C10_type_check_precedes_location_check_witness:
  "snd (oskar_evaluate_auto_power env_cuda 5
     (mk_mem OSKAR_SINGLE_COMPLEX_MATRIX OSKAR_CPU [[1, 0, 0, 0, 0, 0, 1, 0]])
     (mk_mem OSKAR_DOUBLE_COMPLEX_MATRIX OSKAR_GPU []) None) = Some OSKAR_ERR_TYPE_MISMATCH \<and>
   snd (oskar_evaluate_auto_power env_cuda 5
     (mk_mem OSKAR_SINGLE_COMPLEX_MATRIX OSKAR_CPU [[1, 0, 0, 0, 0, 0, 1, 0]])
     (mk_mem OSKAR_DOUBLE_COMPLEX_MATRIX OSKAR_GPU []) None) \<noteq> Some OSKAR_ERR_LOCATION_MISMATCH"
  using C10_type_check_precedes_location_check
          [of "mk_mem OSKAR_DOUBLE_COMPLEX_MATRIX OSKAR_GPU []"
              "mk_mem OSKAR_SINGLE_COMPLEX_MATRIX OSKAR_CPU [[1, 0, 0, 0, 0, 0, 1, 0]]" env_cuda 5]
  by (simp add: mk_mem_def oskar_mem_type_def oskar_mem_location_def)

text \<open>
  Claim C10 as stated holds for every pair of buffers, whatever the status on entry. With
  the status \<open>OSKAR_ERR_LOCATION_MISMATCH\<close> already set, buffers that differ in type and in
  location leave the call with the location-mismatch status.
\<close>

theorem C10_status_preset_counterexample:
  "oskar_mem_type (mk_mem OSKAR_DOUBLE_COMPLEX OSKAR_GPU [])
     \<noteq> oskar_mem_type (mk_mem OSKAR_SINGLE_COMPLEX OSKAR_CPU []) \<and>
   oskar_mem_location (mk_mem OSKAR_DOUBLE_COMPLEX OSKAR_GPU [])
     \<noteq> oskar_mem_location (mk_mem OSKAR_SINGLE_COMPLEX OSKAR_CPU []) \<and>
   snd (oskar_evaluate_auto_power env_cuda 5
     (mk_mem OSKAR_SINGLE_COMPLEX OSKAR_CPU [])
     (mk_mem OSKAR_DOUBLE_COMPLEX OSKAR_GPU []) (Some OSKAR_ERR_LOCATION_MISMATCH))
     = Some OSKAR_ERR_LOCATION_MISMATCH"
  by (simp add: oskar_evaluate_auto_power_def mk_mem_def oskar_mem_type_def
        oskar_mem_location_def)

text \<open>
  Claim C3, as the code has it. When the status is zero on entry and the two buffers
  agree in element type and in location: on the CPU, and on the GPU when the CUDA back
  end is compiled in, an element type outside the four supported ones gives
  \<open>OSKAR_ERR_BAD_DATA_TYPE\<close>; on the GPU without the CUDA back end every element type
  gives \<open>OSKAR_ERR_CUDA_NOT_AVAILABLE\<close>. In each case the output buffer is returned as it
  was.
\<close>

theorem C3_unsupported_type_or_backend:
  assumes "oskar_mem_type jones = oskar_mem_type out"
    and "oskar_mem_location jones = oskar_mem_location out"
  shows "(\<not> supported_type (oskar_mem_type jones) \<and>
          (oskar_mem_location jones = OSKAR_CPU \<or>
           oskar_mem_location jones = OSKAR_GPU \<and> have_cuda env) \<longrightarrow>
            oskar_evaluate_auto_power env n jones out None = (out, Some OSKAR_ERR_BAD_DATA_TYPE)) \<and>
         (oskar_mem_location jones = OSKAR_GPU \<and> \<not> have_cuda env \<longrightarrow>
            oskar_evaluate_auto_power env n jones out None
              = (out, Some OSKAR_ERR_CUDA_NOT_AVAILABLE))"
  using assms
  by (auto intro: auto_power_cpu_bad_type auto_power_gpu_bad_type auto_power_gpu_no_backend)

theorem C3_unsupported_type_or_backend_witness:
  "oskar_evaluate_auto_power env_no_cuda 2
     (mk_mem OSKAR_DOUBLE OSKAR_CPU [[1]]) (mk_mem OSKAR_DOUBLE OSKAR_CPU [[0]]) None
     = (mk_mem OSKAR_DOUBLE OSKAR_CPU [[0]], Some OSKAR_ERR_BAD_DATA_TYPE) \<and>
   oskar_evaluate_auto_power env_cuda 2
     (mk_mem OSKAR_INT OSKAR_GPU [[1]]) (mk_mem OSKAR_INT OSKAR_GPU [[0]]) None
     = (mk_mem OSKAR_INT OSKAR_GPU [[0]], Some OSKAR_ERR_BAD_DATA_TYPE) \<and>
   oskar_evaluate_auto_power env_no_cuda 2
     (mk_mem OSKAR_SINGLE_COMPLEX OSKAR_GPU [[1, 2]])
     (mk_mem OSKAR_SINGLE_COMPLEX OSKAR_GPU [[0, 0]]) None
     = (mk_mem OSKAR_SINGLE_COMPLEX OSKAR_GPU [[0, 0]], Some OSKAR_ERR_CUDA_NOT_AVAILABLE)"
  using C3_unsupported_type_or_backend
          [of "mk_mem OSKAR_DOUBLE OSKAR_CPU [[1]]" "mk_mem OSKAR_DOUBLE OSKAR_CPU [[0]]"
              env_no_cuda 2]
        C3_unsupported_type_or_backend
          [of "mk_mem OSKAR_INT OSKAR_GPU [[1]]" "mk_mem OSKAR_INT OSKAR_GPU [[0]]" env_cuda 2]
        C3_unsupported_type_or_backend
          [of "mk_mem OSKAR_SINGLE_COMPLEX OSKAR_GPU [[1, 2]]"
              "mk_mem OSKAR_SINGLE_COMPLEX OSKAR_GPU [[0, 0]]" env_no_cuda 2]
  by (simp add: mk_mem_def oskar_mem_type_def oskar_mem_location_def supported_type_def
        env_cuda_def env_no_cuda_def)

text \<open>
  Claim C3 as stated fails in three ways. On the GPU without the CUDA back end an
  unsupported element type is answered with \<open>OSKAR_ERR_CUDA_NOT_AVAILABLE\<close>, not with
  the bad-data-type error, although both of the claim's conditions hold there. An
  unsupported element type of the Jones buffer that the output buffer does not share
  is answered with \<open>OSKAR_ERR_TYPE_MISMATCH\<close>. A status that is non-zero on entry is
  left as it is.
\<close>

theorem C3_as_stated_counterexample:
  "\<not> supported_type OSKAR_INT \<and>
   snd (oskar_evaluate_auto_power env_no_cuda 2
     (mk_mem OSKAR_INT OSKAR_GPU [[1]]) (mk_mem OSKAR_INT OSKAR_GPU [[0]]) None)
     = Some OSKAR_ERR_CUDA_NOT_AVAILABLE \<and>
   snd (oskar_evaluate_auto_power env_no_cuda 2
     (mk_mem OSKAR_INT OSKAR_GPU [[1]]) (mk_mem OSKAR_INT OSKAR_GPU [[0]]) None)
     \<noteq> Some OSKAR_ERR_BAD_DATA_TYPE \<and>
   snd (oskar_evaluate_auto_power env_no_cuda 2
     (mk_mem OSKAR_INT OSKAR_CPU [[1]]) (mk_mem OSKAR_DOUBLE OSKAR_CPU [[0]]) None)
     = Some OSKAR_ERR_TYPE_MISMATCH \<and>
   snd (oskar_evaluate_auto_power env_no_cuda 2
     (mk_mem OSKAR_INT OSKAR_CPU [[1]]) (mk_mem OSKAR_INT OSKAR_CPU [[0]])
     (Some OSKAR_ERR_FILE_IO))
     = Some OSKAR_ERR_FILE_IO"
  by (simp add: oskar_evaluate_auto_power_def mk_mem_def oskar_mem_type_def
        oskar_mem_location_def supported_type_def env_no_cuda_def)

section \<open>Properties of the polarisation override\<close>

lemma sky_override_status_set_noop:
  "st \<noteq> None \<Longrightarrow>
   oskar_sky_override_polarisation env (Ptr s) mf sf ma sa seed g (Ptr st) = (Ptr s, g, Ptr st)"
  by (simp add: oskar_sky_override_polarisation_def)

lemma sky_override_negative_mean_noop:
  "mf < 0 \<Longrightarrow>
   oskar_sky_override_polarisation env (Ptr s) mf sf ma sa seed g status = (Ptr s, g, status)"
  by (cases status)
     (simp_all add: oskar_sky_override_polarisation_def oskar_set_invalid_argument_def)

text \<open>
  Claim C9. For every sky model and every other input with a mean polarisation fraction
  below zero, the call returns the sky model (its Stokes Q and U arrays and every other
  field), the random generator and the status exactly as they were on entry; this
  holds whatever the status was, and also for a null status pointer.
\<close>

theorem C9_negative_mean_fraction_is_noop:
  assumes "mean_pol_fraction < 0"
  shows "oskar_sky_override_polarisation env (Ptr sky) mean_pol_fraction std_pol_fraction
           mean_pol_angle_rad std_pol_angle_rad seed g status = (Ptr sky, g, status)"
  using assms by (rule sky_override_negative_mean_noop)

theorem C9_negative_mean_fraction_is_noop_witness:
  "(- 1 :: real) < 0 \<and>
   oskar_sky_override_polarisation lcg_env (Ptr sky2) (- 1) (1 / 10) 0 1 42 (17 :: nat) (Ptr None)
     = (Ptr sky2, 17, Ptr None)"
proof -
  have h: "(- 1 :: real) < 0" by simp
  show ?thesis
    using h C9_negative_mean_fraction_is_noop [OF h, of lcg_env sky2 "1 / 10" 0 1 42 17 "Ptr None"]
    by simp
qed

section \<open>Properties of the baseline geometry and of the visibility structure\<close>

lemma row_start_closed: "i \<le> n \<Longrightarrow> 2 * row_start n i = i * (2 * n - i - 1)"
proof (induction i)
  case 0
  then show ?case by simp
next
  case (Suc i)
  then have ih: "2 * row_start n i = i * (2 * n - i - 1)" and lt: "i < n" by simp_all
  obtain d where d: "n = Suc i + d" using lt by (metis less_iff_Suc_add add_Suc)
  show ?case using ih by (simp add: d algebra_simps)
qed

lemma row_start_total: "row_start n n = n * (n - 1) div 2"
proof -
  have "2 * row_start n n = n * (n - 1)"
    using row_start_closed [of n n] by (simp add: algebra_simps)
  then show ?thesis by simp
qed

lemma row_start_last: "row_start n (n - 1) = n * (n - 1) div 2"
proof (cases n)
  case 0
  then show ?thesis by simp
next
  case (Suc m)
  have "row_start n n = row_start n m + 0" using Suc by simp
  then show ?thesis using row_start_total [of n] Suc by simp
qed

lemma row_start_mono: "i \<le> k \<Longrightarrow> row_start n i \<le> row_start n k"
  by (induction k) (auto simp: le_Suc_eq)

lemma length_rows: "m \<le> n \<Longrightarrow>
  length (concat (map (\<lambda>i. map (\<lambda>j. (i, j)) [Suc i ..< n]) [0 ..< m])) = row_start n m"
  by (induction m) simp_all

lemma length_baseline_pairs: "length (baseline_pairs n) = n * (n - 1) div 2"
  using length_rows [of "n - 1" n] row_start_last [of n] by (simp add: baseline_pairs_def)

lemma set_baseline_pairs: "set (baseline_pairs n) = {(i, j). i < j \<and> j < n}"
proof -
  have "(a, b) \<in> set (baseline_pairs n)" if "a < b" "b < n" for a b
  proof -
    have "a \<in> {0 ..< n - 1}" and "b \<in> {Suc a ..< n}" using that by auto
    then show ?thesis unfolding baseline_pairs_def by force
  qed
  moreover have "a < b \<and> b < n" if "(a, b) \<in> set (baseline_pairs n)" for a b
    using that by (auto simp: baseline_pairs_def)
  ultimately show ?thesis by auto
qed



lemma nth_rows: "i < m \<Longrightarrow> m \<le> n \<Longrightarrow> k < n - 1 - i \<Longrightarrow>
  concat (map (\<lambda>i. map (\<lambda>j. (i, j)) [Suc i ..< n]) [0 ..< m]) ! (row_start n i + k) = (i, Suc i + k)"
proof (induction m)
  case 0
  then show ?case by simp
next
  case (Suc m)
  let ?f = "\<lambda>i. map (\<lambda>j. (i, j)) [Suc i ..< n]"
  have len: "length (concat (map ?f [0 ..< m])) = row_start n m"
    using Suc.prems by (simp add: length_rows)
  show ?case
  proof (cases "i < m")
    case True
    then have "row_start n i + k < row_start n (Suc i)" using Suc.prems by simp
    also have "\<dots> \<le> row_start n m" using True by (intro row_start_mono) simp
    finally have "row_start n i + k < row_start n m" .
    then show ?thesis using Suc True len by (simp add: nth_append)
  next
    case False
    then have "i = m" using Suc.prems by simp
    then show ?thesis using Suc.prems len by (simp add: nth_append)
  qed
qed

lemma nth_baseline_pairs:
  assumes "i < j" "j < n"
  shows "baseline_index n i j < length (baseline_pairs n)"
    and "baseline_pairs n ! baseline_index n i j = (i, j)"
proof -
  have i: "i < n - 1" and k: "j - i - 1 < n - 1 - i" using assms by simp_all
  have "baseline_index n i j < row_start n (Suc i)" using k by (simp add: baseline_index_def)
  also have "\<dots> \<le> row_start n (n - 1)" using i by (intro row_start_mono) simp
  finally show "baseline_index n i j < length (baseline_pairs n)"
    using row_start_last [of n] by (simp add: length_baseline_pairs)
  show "baseline_pairs n ! baseline_index n i j = (i, j)"
    using nth_rows [OF i _ k, of ] assms by (simp add: baseline_pairs_def baseline_index_def)
qed

lemma row_written_done: "\<not> j < n \<Longrightarrow> row_written f n j b xs xs"
  by (auto simp: row_written_def)

lemma row_written_step:
  assumes "j < n" and "row_written f n (Suc j) (Suc b) (xs[b := f j]) xs'"
  shows "row_written f n j b xs xs'"
proof -
  have len: "length xs' = length xs" using assms(2) by (simp add: row_written_def)
  have "xs' ! k = (if b \<le> k \<and> k < b + (n - j) then f (j + (k - b)) else xs ! k)"
    if "k < length xs" for k
  proof -
    have *: "xs' ! k = (if Suc b \<le> k \<and> k < Suc b + (n - Suc j) then f (Suc j + (k - Suc b))
                        else xs[b := f j] ! k)"
      using assms(2) that by (simp add: row_written_def)
    show ?thesis
    proof (cases "k = b")
      case True
      then show ?thesis using * that assms(1) by auto
    next
      case False
      then show ?thesis using * that assms(1) by (auto simp: Suc_diff_Suc)
    qed
  qed
  then show ?thesis using len by (simp add: row_written_def)
qed

lemma convert_inner_rows:
  "convert_inner u v w n i j b (uu, vv, ww) = ((uu', vv', ww'), b') \<Longrightarrow>
   b' = b + (n - j) \<and>
   row_written (\<lambda>j. u ! i - u ! j) n j b uu uu' \<and>
   row_written (\<lambda>j. v ! i - v ! j) n j b vv vv' \<and>
   row_written (\<lambda>j. w ! i - w ! j) n j b ww ww'"
proof (induction u v w n i j b "(uu, vv, ww)" arbitrary: uu vv ww rule: convert_inner.induct)
  case (1 u v w n i j b uu vv ww)
  show ?case
  proof (cases "j < n")
    case True
    have rec: "convert_inner u v w n i (Suc j) (Suc b)
                 (uu[b := u ! i - u ! j], vv[b := v ! i - v ! j], ww[b := w ! i - w ! j])
               = ((uu', vv', ww'), b')"
      using "1.prems" True by (simp add: convert_inner.simps [of u v w n i j])
    note ih = "1.hyps" [OF True rec]
    from ih have "b' = b + (n - j)" using True by simp
    moreover from ih have "row_written (\<lambda>j. u ! i - u ! j) n j b uu uu'"
      by (intro row_written_step [OF True]) simp
    moreover from ih have "row_written (\<lambda>j. v ! i - v ! j) n j b vv vv'"
      by (intro row_written_step [OF True]) simp
    moreover from ih have "row_written (\<lambda>j. w ! i - w ! j) n j b ww ww'"
      by (intro row_written_step [OF True]) simp
    ultimately show ?thesis by simp
  next
    case False
    then have "uu' = uu" "vv' = vv" "ww' = ww" "b' = b"
      using "1.prems" by (simp_all add: convert_inner.simps [of u v w n i j])
    then show ?thesis using False by (simp add: row_written_done)
  qed
qed

lemma rows_written_done: "\<not> Suc i0 < n \<Longrightarrow> rows_written f n i0 xs xs"
  by (auto simp: rows_written_def)

lemma rows_written_step:
  assumes lt: "Suc i0 < n"
    and row: "row_written (f i0) n (Suc i0) (row_start n i0) xs xs1"
    and rest: "rows_written f n (Suc i0) xs1 xs'"
  shows "rows_written f n i0 xs xs'"
proof -
  have len1: "length xs1 = length xs" using row by (simp add: row_written_def)
  have len: "length xs' = length xs" using rest len1 by (simp add: rows_written_def)
  have next_start: "row_start n (Suc i0) = row_start n i0 + (n - Suc i0)" by simp
  have last: "row_start n (Suc i0) \<le> row_start n (n - 1)"
    using lt by (intro row_start_mono) simp
  have row_nth: "xs1 ! k = (if row_start n i0 \<le> k \<and> k < row_start n (Suc i0)
                            then f i0 (Suc i0 + (k - row_start n i0)) else xs ! k)"
    if "k < length xs" for k
    using row that unfolding row_written_def next_start by simp
  have keep: "xs' ! k = xs1 ! k" if "k < length xs" "k < row_start n (Suc i0) \<or> row_start n (n - 1) \<le> k" for k
    using rest that len1 unfolding rows_written_def by auto
  have outside: "xs' ! k = xs ! k"
    if "k < length xs" "k < row_start n i0 \<or> row_start n (n - 1) \<le> k" for k
  proof -
    have "xs' ! k = xs1 ! k" using that last by (intro keep) auto
    also have "\<dots> = xs ! k" using that last row_nth [of k] by auto
    finally show ?thesis .
  qed
  have inside: "xs' ! baseline_index n i j = f i j"
    if "i0 \<le> i" "i < j" "j < n" "baseline_index n i j < length xs" for i j
  proof (cases "i = i0")
    case True
    let ?k = "baseline_index n i0 j"
    have k: "row_start n i0 \<le> ?k" "?k < row_start n (Suc i0)" "?k - row_start n i0 = j - i0 - 1"
      using that True by (auto simp: baseline_index_def)
    have "xs' ! ?k = xs1 ! ?k" using that True k by (intro keep) auto
    also have "\<dots> = f i0 (Suc i0 + (j - i0 - 1))" using that True k row_nth [of ?k] by simp
    also have "Suc i0 + (j - i0 - 1) = j" using that True by simp
    finally show ?thesis using True by simp
  next
    case False
    then have "Suc i0 \<le> i" using that by simp
    then show ?thesis using rest that len1 by (simp add: rows_written_def)
  qed
  show ?thesis unfolding rows_written_def using len outside inside by blast
qed

lemma convert_outer_rows:
  "convert_outer u v w n i b out = (out', b') \<Longrightarrow> b = row_start n i \<Longrightarrow> i \<le> n - 1 \<Longrightarrow>
   b' = row_start n (n - 1) \<and>
   rows_written (\<lambda>i j. u ! i - u ! j) n i (fst out) (fst out') \<and>
   rows_written (\<lambda>i j. v ! i - v ! j) n i (fst (snd out)) (fst (snd out')) \<and>
   rows_written (\<lambda>i j. w ! i - w ! j) n i (snd (snd out)) (snd (snd out'))"
proof (induction u v w n i b out rule: convert_outer.induct)
  case (1 u v w n i b out)
  show ?case
  proof (cases "Suc i < n")
    case True
    obtain uu vv ww where out: "out = (uu, vv, ww)" by (cases out) auto
    obtain uu1 vv1 ww1 b1 where
      inner: "convert_inner u v w n i (Suc i) b (uu, vv, ww) = ((uu1, vv1, ww1), b1)"
      by (metis prod_cases3 surj_pair)
    have rec: "convert_outer u v w n (Suc i) b1 (uu1, vv1, ww1) = (out', b')"
      using "1.prems"(1) True inner out by (simp add: convert_outer.simps [of u v w n i])
    from convert_inner_rows [OF inner]
    have b1: "b1 = row_start n (Suc i)"
      and r1: "row_written (\<lambda>j. u ! i - u ! j) n (Suc i) (row_start n i) uu uu1"
              "row_written (\<lambda>j. v ! i - v ! j) n (Suc i) (row_start n i) vv vv1"
              "row_written (\<lambda>j. w ! i - w ! j) n (Suc i) (row_start n i) ww ww1"
      using "1.prems"(2) by simp_all
    have "Suc i \<le> n - 1" using True by simp
    note ih = "1.IH" [OF True refl inner [unfolded out [symmetric], symmetric] rec b1 this]
    show ?thesis
      using ih r1 out by (auto intro: rows_written_step [OF True])
  next
    case False
    then have "out' = out" "b' = b" "i = n - 1"
      using "1.prems" by (simp_all add: convert_outer.simps [of u v w n i])
    then show ?thesis using False "1.prems" by (simp add: rows_written_done)
  qed
qed



text \<open>
  Claim C5. For every pair of stations \<open>i < j\<close> among \<open>num_stations\<close> stations and all
  station coordinate arrays, the conversion run on output arrays pre-sized to
  \<open>N * (N - 1) / 2\<close> leaves at the canonical baseline index of the pair the coordinate of
  station \<open>i\<close> minus the coordinate of station \<open>j\<close>, in each of the three arrays; that
  index is the position of \<open>(i, j)\<close> in the canonical enumeration.
\<close>

theorem C5_baseline_is_station_i_minus_station_j:
  assumes "i < j" and "j < nat num_stations"
    and "nat num_stations * (nat num_stations - 1) div 2 \<le> length uu"
    and "nat num_stations * (nat num_stations - 1) div 2 \<le> length vv"
    and "nat num_stations * (nat num_stations - 1) div 2 \<le> length ww"
    and "convert_station_uvw_to_baseline_uvw num_stations u v w (uu, vv, ww) = (uu', vv', ww')"
  shows "uu' ! baseline_index (nat num_stations) i j = u ! i - u ! j \<and>
         vv' ! baseline_index (nat num_stations) i j = v ! i - v ! j \<and>
         ww' ! baseline_index (nat num_stations) i j = w ! i - w ! j \<and>
         baseline_pairs (nat num_stations) ! baseline_index (nat num_stations) i j = (i, j)"
proof -
  let ?n = "nat num_stations"
  obtain b' where run: "convert_outer u v w ?n 0 0 (uu, vv, ww) = ((uu', vv', ww'), b')"
    using assms(6) unfolding convert_station_uvw_to_baseline_uvw_def
    by (metis prod.collapse)
  have rows: "rows_written (\<lambda>i j. u ! i - u ! j) ?n 0 uu uu'"
             "rows_written (\<lambda>i j. v ! i - v ! j) ?n 0 vv vv'"
             "rows_written (\<lambda>i j. w ! i - w ! j) ?n 0 ww ww'"
    using convert_outer_rows [OF run] by simp_all
  have pos: "baseline_index ?n i j < ?n * (?n - 1) div 2"
    using nth_baseline_pairs(1) [OF assms(1,2)] by (simp add: length_baseline_pairs)
  have "uu' ! baseline_index ?n i j = u ! i - u ! j"
    using rows(1) assms(1-3) pos unfolding rows_written_def by auto
  moreover have "vv' ! baseline_index ?n i j = v ! i - v ! j"
    using rows(2) assms(1,2,4) pos unfolding rows_written_def by auto
  moreover have "ww' ! baseline_index ?n i j = w ! i - w ! j"
    using rows(3) assms(1,2,5) pos unfolding rows_written_def by auto
  ultimately show ?thesis using nth_baseline_pairs(2) [OF assms(1,2)] by simp
qed

theorem C5_baseline_is_station_i_minus_station_j_witness:
  "convert_station_uvw_to_baseline_uvw 3 [0, 100, 250 :: int] [0, 10, 0] [5, 5, 7]
      ([0, 0, 0], [0, 0, 0], [0, 0, 0])
     = ([- 100, - 250, - 150], [- 10, 0, 10], [0, - 2, - 2]) \<and>
   baseline_index 3 0 2 = 1 \<and>
   [- 100, - 250, - 150] ! baseline_index 3 0 2 = [0, 100, 250 :: int] ! 0 - [0, 100, 250] ! 2 \<and>
   baseline_pairs 3 ! baseline_index 3 0 2 = (0, 2)"
proof -
  have run: "convert_station_uvw_to_baseline_uvw 3 [0, 100, 250 :: int] [0, 10, 0] [5, 5, 7]
      ([0, 0, 0], [0, 0, 0], [0, 0, 0])
     = ([- 100, - 250, - 150], [- 10, 0, 10], [0, - 2, - 2])"
    by code_simp
  have idx: "baseline_index 3 0 2 = 1" by code_simp
  have h1: "(0 :: nat) < 2" and h2: "2 < nat 3" by simp_all
  have h3: "nat 3 * (nat 3 - 1) div 2 \<le> length [0, 0, 0 :: int]" by simp
  from C5_baseline_is_station_i_minus_station_j [OF h1 h2 h3 h3 h3 run]
  show ?thesis using run idx by simp
qed






section \<open>Properties of the status check on entry and of resizing\<close>

lemma load_ascii_status_set_noop:
  "st \<noteq> None \<Longrightarrow> args \<noteq> [] \<Longrightarrow>
   oskar_mem_load_ascii menv env (Ptr name) args (Ptr st) = (0, map fst args, Ptr st)"
  by (simp add: oskar_mem_load_ascii_def)

text \<open>
  Claim C2, as the code has it. With a non-zero status on entry, the dispatch entry point
  returns the output buffer and the status as they were; the ASCII loader, called with
  a file name and at least one array, returns zero rows and leaves the arrays and the
  status as they were; the polarisation override, called with a sky model, leaves the
  sky model, the random generator and the status as they were.
\<close>

theorem C2_nonzero_status_is_noop:
  assumes "st \<noteq> None"
  shows "oskar_evaluate_auto_power aenv num_sources jones out st = (out, st) \<and>
         oskar_mem_load_ascii menv lenv (Ptr name) (a # args) (Ptr st)
           = (0, map fst (a # args), Ptr st) \<and>
         oskar_sky_override_polarisation senv (Ptr sky) mean_pol_fraction std_pol_fraction
             mean_pol_angle_rad std_pol_angle_rad seed g (Ptr st)
           = (Ptr sky, g, Ptr st)"
  using assms
  by (simp add: auto_power_status_set_noop load_ascii_status_set_noop
        sky_override_status_set_noop)

theorem C2_nonzero_status_is_noop_witness:
  "oskar_evaluate_auto_power env_cuda 1
     (mk_mem OSKAR_DOUBLE_COMPLEX OSKAR_CPU [[1, 2]])
     (mk_mem OSKAR_DOUBLE_COMPLEX OSKAR_CPU [[7, 7]]) (Some OSKAR_ERR_FILE_IO)
     = (mk_mem OSKAR_DOUBLE_COMPLEX OSKAR_CPU [[7, 7]], Some OSKAR_ERR_FILE_IO) \<and>
   oskar_mem_load_ascii small_heap sample_files (Ptr ''sky.txt'')
     [(mk_mem OSKAR_DOUBLE OSKAR_CPU [[5]], '''')] (Ptr (Some OSKAR_ERR_FILE_IO))
     = (0, [mk_mem OSKAR_DOUBLE OSKAR_CPU [[5]]], Ptr (Some OSKAR_ERR_FILE_IO)) \<and>
   oskar_sky_override_polarisation lcg_env (Ptr sky2) (1 / 2) (1 / 10) 0 1 42 (17 :: nat)
     (Ptr (Some OSKAR_ERR_FILE_IO))
     = (Ptr sky2, 17, Ptr (Some OSKAR_ERR_FILE_IO))"
proof -
  have h: "Some OSKAR_ERR_FILE_IO \<noteq> None" by simp
  show ?thesis
    using C2_nonzero_status_is_noop [OF h, of env_cuda 1
            "mk_mem OSKAR_DOUBLE_COMPLEX OSKAR_CPU [[1, 2]]"
            "mk_mem OSKAR_DOUBLE_COMPLEX OSKAR_CPU [[7, 7]]"
            small_heap sample_files "''sky.txt''"
            "(mk_mem OSKAR_DOUBLE OSKAR_CPU [[5]], '''')" "[]"
            lcg_env sky2 "1 / 2" "1 / 10" 0 1 42 17]
    by simp
qed

text \<open>
  Claim C2 as stated holds for every entry point that takes a status pointer and for
  every call. In the loader and in the override the test of the arguments comes before
  the test of the status: called with no array, or with a null sky model, and the
  status \<open>OSKAR_ERR_FILE_IO\<close>, they overwrite the status with
  \<open>OSKAR_ERR_INVALID_ARGUMENT\<close>. The constructor \<open>oskar_vis_create\<close> takes a status
  pointer and does not test its value at all: called with the status
  \<open>OSKAR_ERR_FILE_IO\<close> and a non-complex amplitude type it overwrites the status with
  \<open>OSKAR_ERR_BAD_DATA_TYPE\<close>.
\<close>

theorem C2_status_overwritten_counterexample:
  "oskar_mem_load_ascii small_heap sample_files (Ptr ''sky.txt'') []
     (Ptr (Some OSKAR_ERR_FILE_IO))
     = (0, [], Ptr (Some OSKAR_ERR_INVALID_ARGUMENT)) \<and>
   oskar_sky_override_polarisation lcg_env (NULL :: oskar_Sky ptr) (1 / 2) (1 / 10) 0 1 42
     (17 :: nat) (Ptr (Some OSKAR_ERR_FILE_IO))
     = (NULL, 17, Ptr (Some OSKAR_ERR_INVALID_ARGUMENT)) \<and>
   oskar_vis_create small_heap OSKAR_INT OSKAR_CPU 1 1 2 (Ptr (Some OSKAR_ERR_FILE_IO))
     = (NULL, Ptr (Some OSKAR_ERR_BAD_DATA_TYPE))"
  by (simp add: oskar_mem_load_ascii_def oskar_sky_override_polarisation_def
        oskar_vis_create_def oskar_set_invalid_argument_def oskar_mem_type_is_double_def
        oskar_mem_type_is_single_def)

text \<open>
  A run of the loader with status zero, for comparison: two rows are read from the
  sample file, the comment line is skipped, the missing second column of the last row
  takes its default, and the array in GPU memory receives its column through the
  temporary handle.
\<close>

lemma load_ascii_example:
  "oskar_mem_load_ascii small_heap sample_files (Ptr ''sky.txt'')
     [(mk_mem OSKAR_DOUBLE OSKAR_CPU [], ''''), (mk_mem OSKAR_DOUBLE OSKAR_GPU [], ''9'')]
     (Ptr None)
   = (2, [mk_mem OSKAR_DOUBLE OSKAR_CPU [[1], [3]], mk_mem OSKAR_DOUBLE OSKAR_GPU [[2], [9]]],
      Ptr None)"
  by code_simp

lemma realloc_success:
  assumes "oskar_mem_realloc menv mem n st = (mem', None)"
  shows "mem' = mem\<lparr> mem_data := take n (mem_data mem) @
                     replicate (n - length (mem_data mem)) (zero_element (mem_type mem)) \<rparr>"
  using assms by (auto simp: oskar_mem_realloc_def oskar_mem_length_def split: if_splits)

text \<open>
  Where the loader relies on this: storing one row of the file, which grows an array
  that is too short to \<open>row_index + 100\<close> elements, changes no element of any array
  other than that of the row being stored.
\<close>

lemma store_data_other_rows:
  assumes "store_data env data t r c row_data st = (data', c', st')"
  shows "length data' = length data \<and> (\<forall>k. k \<noteq> r \<longrightarrow> data' ! k = data ! k)"
  using assms by (cases t) (auto simp: store_data_def)

lemma realloc_keeps_prefix:
  assumes "oskar_mem_realloc menv m n st = (m', st')" and "length (mem_data m) \<le> n"
  shows "length (mem_data m) \<le> length (mem_data m') \<and>
         (\<forall>k < length (mem_data m). mem_data m' ! k = mem_data m ! k)"
  using assms
  by (auto simp: oskar_mem_realloc_def oskar_mem_length_def nth_append split: if_splits)

lemma rows_kept_refl: "rows_kept r h h"
  by (cases h) (simp_all add: rows_kept_def)

lemma store_row_unfold:
  assumes "(if oskar_mem_length m \<le> r
      then (let (m, st) = oskar_mem_realloc menv m (r + 100) st in (m, st, st \<noteq> None))
      else (m, st, False)) = (m1, st1, stop)"
  shows "store_row menv env r row_data (Ptr m # hs) c st =
     (if stop then (Ptr m1 # hs, st1)
      else (let (data, c1, st2) = store_data env (mem_data m1) (oskar_mem_type m1) r c row_data st1;
                (hs1, st3) = store_row menv env r row_data hs c1 st2
            in (Ptr (m1\<lparr> mem_data := data \<rparr>) # hs1, st3)))"
proof -
  note a = assms [unfolded Let_def]
  show ?thesis by (simp only: store_row.simps Let_def a prod.case)
qed

lemma store_row_keeps_earlier_rows:
  "store_row menv env r row_data hs c st = (hs', st') \<Longrightarrow> list_all2 (rows_kept r) hs hs'"
proof (induction menv env r row_data hs c st arbitrary: hs' st' rule: store_row.induct)
  case (1 menv env r row_data c st)
  then show ?case by simp
next
  case (2 menv env r row_data hs c st)
  then show ?case by (auto simp: rows_kept_refl list_all2_same)
next
  case (3 menv env r row_data m hs c st)
  define grown where "grown =
    (if oskar_mem_length m \<le> r
      then (let (m, st) = oskar_mem_realloc menv m (r + 100) st in (m, st, st \<noteq> None))
      else (m, st, False))"
  obtain m1 st1 stop where g: "grown = (m1, st1, stop)"
    by (cases grown) auto
  have grow: "(if oskar_mem_length m \<le> r
      then (let (m, st) = oskar_mem_realloc menv m (r + 100) st in (m, st, st \<noteq> None))
      else (m, st, False)) = (m1, st1, stop)"
    using g unfolding grown_def .
  note unfold = store_row_unfold [OF grow, of env row_data hs c]
  have m1: "length (mem_data m) \<le> length (mem_data m1) \<and>
            (\<forall>k < length (mem_data m). mem_data m1 ! k = mem_data m ! k)"
  proof (cases "oskar_mem_length m \<le> r")
    case True
    obtain m2 st2 where re: "oskar_mem_realloc menv m (r + 100) st = (m2, st2)"
      by (cases "oskar_mem_realloc menv m (r + 100) st") auto
    have "m2 = m1" using grow True by (simp add: re)
    then have "oskar_mem_realloc menv m (r + 100) st = (m1, st2)" using re by simp
    moreover have "length (mem_data m) \<le> r + 100" using True by (simp add: oskar_mem_length_def)
    ultimately show ?thesis by (rule realloc_keeps_prefix)
  next
    case False
    then have "m1 = m" using grow by simp
    then show ?thesis by simp
  qed
  show ?case
  proof (cases stop)
    case True
    then have "hs' = Ptr m1 # hs" using "3.prems" unfolding unfold by simp
    moreover have "list_all2 (rows_kept r) hs hs" by (simp add: list_all2_same rows_kept_refl)
    moreover have "rows_kept r (Ptr m) (Ptr m1)" using m1 by (simp add: rows_kept_def)
    ultimately show ?thesis by simp
  next
    case False
    obtain data c1 st2 where sd:
      "store_data env (mem_data m1) (oskar_mem_type m1) r c row_data st1 = (data, c1, st2)"
      by (cases "store_data env (mem_data m1) (oskar_mem_type m1) r c row_data st1") auto
    obtain hs1 st3 where rest: "store_row menv env r row_data hs c1 st2 = (hs1, st3)"
      by (cases "store_row menv env r row_data hs c1 st2") auto
    have hs': "hs' = Ptr (m1\<lparr> mem_data := data \<rparr>) # hs1"
      using "3.prems" False unfolding unfold by (simp add: sd rest)
    have tail: "list_all2 (rows_kept r) hs hs1"
      using "3.IH" [OF grow [symmetric] refl refl False sd [symmetric] refl refl rest] .
    have "rows_kept r (Ptr m) (Ptr (m1\<lparr> mem_data := data \<rparr>))"
      using m1 store_data_other_rows [OF sd] by (simp add: rows_kept_def)
    then show ?thesis using hs' tail by simp
  qed
qed

text \<open>
  Claim C8. For every buffer and every new length, a resize that returns with status
  zero leaves a buffer of the new length and of the same type and location, whose
  first \<open>min (old length) (new length)\<close> elements are those of the old buffer, and whose
  elements from the old length on, when the buffer has grown, are zero.
\<close>

theorem C8_resize_keeps_prefix_and_zero_fills:
  assumes "oskar_mem_realloc menv mem n st = (mem', None)"
  shows "oskar_mem_length mem' = n \<and>
         oskar_mem_type mem' = oskar_mem_type mem \<and>
         oskar_mem_location mem' = oskar_mem_location mem \<and>
         (\<forall>k < min (oskar_mem_length mem) n. mem_data mem' ! k = mem_data mem ! k) \<and>
         (\<forall>k. oskar_mem_length mem \<le> k \<and> k < n \<longrightarrow>
              mem_data mem' ! k = zero_element (oskar_mem_type mem))"
proof -
  note eq = realloc_success [OF assms]
  have "oskar_mem_length mem' = n"
    by (auto simp: eq oskar_mem_length_def)
  moreover have "mem_data mem' ! k = mem_data mem ! k" if "k < min (oskar_mem_length mem) n" for k
    using that by (simp add: eq oskar_mem_length_def nth_append)
  moreover have "mem_data mem' ! k = zero_element (oskar_mem_type mem)"
    if "oskar_mem_length mem \<le> k \<and> k < n" for k
    using that by (auto simp: eq oskar_mem_length_def oskar_mem_type_def nth_append)
  ultimately show ?thesis
    by (simp add: eq oskar_mem_type_def oskar_mem_location_def)
qed

theorem C8_resize_keeps_prefix_and_zero_fills_witness:
  "oskar_mem_realloc small_heap (mk_mem OSKAR_DOUBLE_COMPLEX OSKAR_CPU [[1, 2], [3, 4]]) 4 None
     = (mk_mem OSKAR_DOUBLE_COMPLEX OSKAR_CPU [[1, 2], [3, 4], [0, 0], [0, 0]], None) \<and>
   oskar_mem_length (mk_mem OSKAR_DOUBLE_COMPLEX OSKAR_CPU [[1, 2], [3, 4], [0, 0], [0, 0]]) = 4 \<and>
   mem_data (mk_mem OSKAR_DOUBLE_COMPLEX OSKAR_CPU [[1, 2], [3, 4], [0, 0], [0, 0]]) ! 1
     = mem_data (mk_mem OSKAR_DOUBLE_COMPLEX OSKAR_CPU [[1, 2], [3, 4]]) ! 1 \<and>
   mem_data (mk_mem OSKAR_DOUBLE_COMPLEX OSKAR_CPU [[1, 2], [3, 4], [0, 0], [0, 0]]) ! 3
     = zero_element OSKAR_DOUBLE_COMPLEX"
proof -
  have run: "oskar_mem_realloc small_heap (mk_mem OSKAR_DOUBLE_COMPLEX OSKAR_CPU [[1, 2], [3, 4]]) 4 None
     = (mk_mem OSKAR_DOUBLE_COMPLEX OSKAR_CPU [[1, 2], [3, 4], [0, 0], [0, 0]], None)"
    by (simp add: oskar_mem_realloc_def small_heap_def mk_mem_def oskar_mem_length_def
          zero_element_def num_components_def oskar_mem_type_is_complex_def
          oskar_mem_type_is_matrix_def numeral_eq_Suc)
  let ?m = "mk_mem OSKAR_DOUBLE_COMPLEX OSKAR_CPU [[1, 2], [3, 4]]"
  let ?m' = "mk_mem OSKAR_DOUBLE_COMPLEX OSKAR_CPU [[1, 2], [3, 4], [0, 0], [0, 0]]"
  note r = C8_resize_keeps_prefix_and_zero_fills [OF run]
  have len: "oskar_mem_length ?m' = 4" using r by blast
  have "1 < min (oskar_mem_length ?m) 4"
    by (simp add: oskar_mem_length_def mk_mem_def)
  with r have pre: "mem_data ?m' ! 1 = mem_data ?m ! 1" by blast
  have "oskar_mem_length ?m \<le> 3 \<and> (3 :: nat) < 4"
    by (simp add: oskar_mem_length_def mk_mem_def)
  with r have "mem_data ?m' ! 3 = zero_element (oskar_mem_type ?m)" by blast
  then have tail: "mem_data ?m' ! 3 = zero_element OSKAR_DOUBLE_COMPLEX"
    by (simp add: oskar_mem_type_def mk_mem_def)
  show ?thesis using run len pre tail by blast
qed

section \<open>Properties of the smearing model\<close>

lemma sinc_zero: "sinc 1 0 = 1"
  by (simp add: sinc_def)

lemma sinc_even: "sinc 1 (- x) = sinc 1 x"
  by (simp add: sinc_def)

lemma sinc_abs: "sinc 1 \<bar>x\<bar> = sinc 1 x"
  by (cases "0 \<le> x") (simp_all add: abs_if sinc_even)

lemma abs_sinc_le_one: "\<bar>sinc 1 x\<bar> \<le> 1"
proof (cases "x = 0")
  case True
  then show ?thesis by (simp add: sinc_def)
next
  case False
  have "\<bar>sin x\<bar> \<le> \<bar>x\<bar>" by (rule abs_sin_x_le_abs_x)
  then have "\<bar>sin x\<bar> / \<bar>x\<bar> \<le> 1" using False by (simp add: divide_le_eq_1)
  then show ?thesis using False by (simp add: sinc_def)
qed

lemma sinc_nonneg: "\<bar>x\<bar> \<le> pi \<Longrightarrow> 0 \<le> sinc 1 x"
proof -
  assume a: "\<bar>x\<bar> \<le> pi"
  have "0 \<le> sinc 1 \<bar>x\<bar>"
  proof (cases "x = 0")
    case True
    then show ?thesis by (simp add: sinc_def)
  next
    case False
    have "0 \<le> sin \<bar>x\<bar>" using a by (intro sin_ge_zero) simp_all
    then show ?thesis using False by (simp add: sinc_def)
  qed
  then show ?thesis by (simp add: sinc_abs)
qed

lemma x_cos_le_sin:
  assumes "0 \<le> t" "t \<le> pi"
  shows "t * cos t - sin t \<le> 0"
proof -
  have "t * cos t - sin t \<le> 0 * cos 0 - sin 0"
  proof (rule DERIV_nonpos_imp_nonincreasing [OF assms(1)])
    fix s assume s: "0 \<le> s" "s \<le> t"
    have "((\<lambda>s. s * cos s - sin s) has_real_derivative - (s * sin s)) (at s)"
      by (auto intro!: derivative_eq_intros)
    moreover have "0 \<le> sin s" using s assms(2) by (intro sin_ge_zero) simp_all
    then have "- (s * sin s) \<le> 0" using s(1) by simp
    ultimately show "\<exists>y. ((\<lambda>s. s * cos s - sin s) has_real_derivative y) (at s) \<and> y \<le> 0"
      by blast
  qed
  then show ?thesis by simp
qed

lemma sinc_antimono_pos:
  assumes "0 < x" "x \<le> y" "y \<le> pi"
  shows "sin y / y \<le> sin x / x"
proof (rule DERIV_nonpos_imp_nonincreasing [OF assms(2)])
  fix t assume t: "x \<le> t" "t \<le> y"
  then have pos: "0 < t" using assms(1) by simp
  have "((\<lambda>t. sin t / t) has_real_derivative (cos t * t - sin t * 1) / (t * t)) (at t)"
    using pos by (auto intro!: derivative_eq_intros)
  moreover have "t * cos t - sin t \<le> 0" using pos t assms(3) by (intro x_cos_le_sin) simp_all
  then have "(cos t * t - sin t * 1) / (t * t) \<le> 0"
    using pos by (simp add: divide_le_0_iff mult.commute)
  ultimately show "\<exists>y. ((\<lambda>t. sin t / t) has_real_derivative y) (at t) \<and> y \<le> 0"
    by blast
qed

lemma sinc_antimono:
  assumes "\<bar>x\<bar> \<le> \<bar>y\<bar>" "\<bar>y\<bar> \<le> pi"
  shows "sinc 1 y \<le> sinc 1 x"
proof -
  have "sinc 1 \<bar>y\<bar> \<le> sinc 1 \<bar>x\<bar>"
  proof (cases "x = 0")
    case True
    have "sinc 1 \<bar>y\<bar> \<le> \<bar>sinc 1 \<bar>y\<bar>\<bar>" by simp
    also have "\<dots> \<le> 1" by (rule abs_sinc_le_one)
    finally show ?thesis using True by (simp add: sinc_def)
  next
    case False
    then have "0 < \<bar>x\<bar>" by simp
    then have "sin \<bar>y\<bar> / \<bar>y\<bar> \<le> sin \<bar>x\<bar> / \<bar>x\<bar>" using assms by (rule sinc_antimono_pos)
    moreover have "y \<noteq> 0" using False assms(1) by auto
    ultimately show ?thesis using False by (simp add: sinc_def)
  qed
  then show ?thesis by (simp add: sinc_abs)
qed

lemma sinc_scale: "sinc k x = sinc 1 (k * x)"
  by (simp add: sinc_def)

lemma sin_3pi_over2: "sin (3 * pi / 2) = - 1"
  using sin_3over2_pi by simp

lemma sin_pi_3over2: "sin (pi * 3 / 2) = - 1"
  using sin_3pi_over2 by (simp add: mult.commute)

text \<open>
  Claim C6, as the model of the spec has it, for either convention of \<open>sinc\<close> (any
  scale \<open>k > 0\<close>). For all inputs the smearing factor has absolute value at most one,
  and it equals one when the bandwidth-delay product and the
  integration-time-fringe-rate product are both zero. When both products lie in the
  main lobe of \<open>sinc\<close> (\<open>k\<close> times the product has absolute value at most \<open>\<pi>\<close>), the
  factor lies between zero and one and does not increase when the absolute value of
  either product grows up to the given one.
\<close>

theorem C6_smearing_in_main_lobe:
  assumes "0 < k"
  shows
  "\<bar>smearing_factor k channel_bandwidth delay integration_time fringe_rate\<bar> \<le> 1 \<and>
   (channel_bandwidth * delay = 0 \<and> integration_time * fringe_rate = 0 \<longrightarrow>
      smearing_factor k channel_bandwidth delay integration_time fringe_rate = 1) \<and>
   (\<bar>k * (channel_bandwidth * delay)\<bar> \<le> pi \<and> \<bar>k * (integration_time * fringe_rate)\<bar> \<le> pi \<longrightarrow>
      0 \<le> smearing_factor k channel_bandwidth delay integration_time fringe_rate \<and>
      smearing_factor k channel_bandwidth delay integration_time fringe_rate \<le> 1 \<and>
      (\<forall>b d. \<bar>b * d\<bar> \<le> \<bar>channel_bandwidth * delay\<bar> \<longrightarrow>
         smearing_factor k channel_bandwidth delay integration_time fringe_rate
           \<le> smearing_factor k b d integration_time fringe_rate) \<and>
      (\<forall>t f. \<bar>t * f\<bar> \<le> \<bar>integration_time * fringe_rate\<bar> \<longrightarrow>
         smearing_factor k channel_bandwidth delay integration_time fringe_rate
           \<le> smearing_factor k channel_bandwidth delay t f))"
proof -
  let ?x = "channel_bandwidth * delay" and ?y = "integration_time * fringe_rate"
  have scaled: "\<bar>k * a\<bar> \<le> \<bar>k * c\<bar>" if "\<bar>a\<bar> \<le> \<bar>c\<bar>" for a c :: real
    using that assms by (simp add: abs_mult mult_left_mono)
  have bound: "\<bar>sinc k ?x * sinc k ?y\<bar> \<le> 1"
    using abs_sinc_le_one [of "k * ?x"] abs_sinc_le_one [of "k * ?y"]
    unfolding sinc_scale [of k] by (simp add: abs_mult mult_le_one)
  have one: "sinc k ?x * sinc k ?y = 1" if "?x = 0" "?y = 0"
    using that by (simp add: sinc_def)
  have lobe: "0 \<le> sinc k ?x * sinc k ?y \<and> sinc k ?x * sinc k ?y \<le> 1 \<and>
      (\<forall>b d. \<bar>b * d\<bar> \<le> \<bar>?x\<bar> \<longrightarrow> sinc k ?x * sinc k ?y \<le> sinc k (b * d) * sinc k ?y) \<and>
      (\<forall>t f. \<bar>t * f\<bar> \<le> \<bar>?y\<bar> \<longrightarrow> sinc k ?x * sinc k ?y \<le> sinc k ?x * sinc k (t * f))"
    if x: "\<bar>k * ?x\<bar> \<le> pi" and y: "\<bar>k * ?y\<bar> \<le> pi"
  proof -
    have nx: "0 \<le> sinc k ?x" and ny: "0 \<le> sinc k ?y"
      using sinc_nonneg [OF x] sinc_nonneg [OF y] unfolding sinc_scale [of k] by simp_all
    have "0 \<le> sinc k ?x * sinc k ?y" using nx ny by simp
    moreover have "sinc k ?x * sinc k ?y \<le> 1" using bound by simp
    moreover have "sinc k ?x * sinc k ?y \<le> sinc k (b * d) * sinc k ?y" if "\<bar>b * d\<bar> \<le> \<bar>?x\<bar>" for b d
    proof -
      have "sinc 1 (k * ?x) \<le> sinc 1 (k * (b * d))" using scaled [OF that] x by (rule sinc_antimono)
      then have "sinc k ?x \<le> sinc k (b * d)" unfolding sinc_scale [of k] .
      then show ?thesis using ny by (rule mult_right_mono)
    qed
    moreover have "sinc k ?x * sinc k ?y \<le> sinc k ?x * sinc k (t * f)" if "\<bar>t * f\<bar> \<le> \<bar>?y\<bar>" for t f
    proof -
      have "sinc 1 (k * ?y) \<le> sinc 1 (k * (t * f))" using scaled [OF that] y by (rule sinc_antimono)
      then have "sinc k ?y \<le> sinc k (t * f)" unfolding sinc_scale [of k] .
      then show ?thesis using nx by (rule mult_left_mono)
    qed
    ultimately show ?thesis by blast
  qed
  show ?thesis
    unfolding smearing_factor_def bandwidth_smearing_def time_smearing_def
    using bound one lobe by blast
qed

theorem C6_smearing_in_main_lobe_witness:
  "\<bar>smearing_factor 1 2 (1 / 2) 0 0\<bar> \<le> 1 \<and>
   smearing_factor 1 0 5 3 0 = 1 \<and>
   0 \<le> smearing_factor 1 2 (1 / 2) 0 0 \<and>
   smearing_factor 1 2 (1 / 2) 0 0 \<le> 1 \<and>
   smearing_factor 1 2 (1 / 2) 0 0 \<le> smearing_factor 1 1 (1 / 2) 0 0 \<and>
   smearing_factor 1 2 (1 / 2) 1 1 \<le> smearing_factor 1 2 (1 / 2) 1 (1 / 2) \<and>
   \<bar>smearing_factor pi 2 (1 / 2) 0 0\<bar> \<le> 1 \<and>
   smearing_factor pi 0 5 3 0 = 1 \<and>
   0 \<le> smearing_factor pi 2 (1 / 2) 0 0 \<and>
   smearing_factor pi 2 (1 / 2) 0 0 \<le> 1 \<and>
   smearing_factor pi 2 (1 / 2) 0 0 \<le> smearing_factor pi 1 (1 / 2) 0 0 \<and>
   smearing_factor pi 2 (1 / 2) 1 1 \<le> smearing_factor pi 2 (1 / 2) 1 (1 / 2)"
proof -
  have inst: "\<bar>smearing_factor k 2 (1 / 2) 0 0\<bar> \<le> 1 \<and>
     smearing_factor k 0 5 3 0 = 1 \<and>
     0 \<le> smearing_factor k 2 (1 / 2) 0 0 \<and>
     smearing_factor k 2 (1 / 2) 0 0 \<le> 1 \<and>
     smearing_factor k 2 (1 / 2) 0 0 \<le> smearing_factor k 1 (1 / 2) 0 0 \<and>
     smearing_factor k 2 (1 / 2) 1 1 \<le> smearing_factor k 2 (1 / 2) 1 (1 / 2)"
    if k: "0 < k" and lobe: "\<bar>k\<bar> \<le> pi" for k :: real
  proof -
    note a = C6_smearing_in_main_lobe [OF k, of 2 "1 / 2" 0 0]
    note b = C6_smearing_in_main_lobe [OF k, of 0 5 3 0]
    note c = C6_smearing_in_main_lobe [OF k, of 2 "1 / 2" 1 1]
    have "\<bar>k * (2 * (1 / 2))\<bar> \<le> pi \<and> \<bar>k * (0 * 0)\<bar> \<le> pi" using lobe by simp
    with a have a': "0 \<le> smearing_factor k 2 (1 / 2) 0 0" "smearing_factor k 2 (1 / 2) 0 0 \<le> 1"
      "\<forall>b d. \<bar>b * d\<bar> \<le> \<bar>2 * (1 / 2) :: real\<bar> \<longrightarrow>
         smearing_factor k 2 (1 / 2) 0 0 \<le> smearing_factor k b d 0 0"
      by blast+
    have "\<bar>1 * (1 / 2) :: real\<bar> \<le> \<bar>2 * (1 / 2)\<bar>" by simp
    with a'(3) have a'': "smearing_factor k 2 (1 / 2) 0 0 \<le> smearing_factor k 1 (1 / 2) 0 0" by blast
    have "(0 :: real) * 5 = 0 \<and> (3 :: real) * 0 = 0" by simp
    with b have b': "smearing_factor k 0 5 3 0 = 1" by blast
    have "\<bar>k * (2 * (1 / 2))\<bar> \<le> pi \<and> \<bar>k * (1 * 1)\<bar> \<le> pi" using lobe by simp
    with c have "\<forall>t f. \<bar>t * f\<bar> \<le> \<bar>1 * 1 :: real\<bar> \<longrightarrow>
         smearing_factor k 2 (1 / 2) 1 1 \<le> smearing_factor k 2 (1 / 2) t f"
      by blast
    moreover have "\<bar>1 * (1 / 2) :: real\<bar> \<le> \<bar>1 * 1\<bar>" by simp
    ultimately have c': "smearing_factor k 2 (1 / 2) 1 1 \<le> smearing_factor k 2 (1 / 2) 1 (1 / 2)" by blast
    show ?thesis using a a' a'' b' c' by blast
  qed
  have one: "(0 :: real) < 1" "\<bar>1 :: real\<bar> \<le> pi" using pi_ge_two by simp_all
  have p: "0 < pi" "\<bar>pi\<bar> \<le> pi" by simp_all
  show ?thesis using inst [OF one] inst [OF p] by (intro conjI) blast+
qed

text \<open>
  Claim C6 as stated holds for all inputs. Beyond the main lobe \<open>sinc\<close> changes sign
  and rises again, under either convention. With \<open>sinc x = sin x / x\<close>: at the
  bandwidth-delay product \<open>3\<pi>/2\<close> the factor is negative, and at the larger product
  \<open>2\<pi>\<close> it is greater than there. With \<open>sinc x = sin (\<pi> x) / (\<pi> x)\<close>: the same at the
  products \<open>3/2\<close> and \<open>2\<close>.
\<close>

theorem C6_side_lobe_counterexample:
  "smearing_factor 1 (3 / 2) pi 0 0 < 0 \<and>
   \<bar>(3 / 2) * pi\<bar> \<le> \<bar>2 * pi\<bar> \<and>
   smearing_factor 1 (3 / 2) pi 0 0 < smearing_factor 1 2 pi 0 0 \<and>
   smearing_factor pi (3 / 2) 1 0 0 < 0 \<and>
   \<bar>(3 / 2) * 1 :: real\<bar> \<le> \<bar>2 * 1\<bar> \<and>
   smearing_factor pi (3 / 2) 1 0 0 < smearing_factor pi 2 1 0 0"
proof -
  have "smearing_factor 1 (3 / 2) pi 0 0 = - 2 / (3 * pi)"
    by (simp add: smearing_factor_def bandwidth_smearing_def time_smearing_def sinc_def
          sin_3pi_over2)
  moreover have "smearing_factor 1 2 pi 0 0 = 0"
    by (simp add: smearing_factor_def bandwidth_smearing_def time_smearing_def sinc_def)
  moreover have "smearing_factor pi (3 / 2) 1 0 0 = - 2 / (3 * pi)"
    by (simp add: smearing_factor_def bandwidth_smearing_def time_smearing_def sinc_def
          sin_pi_3over2)
  moreover have "smearing_factor pi 2 1 0 0 = 0"
    by (simp add: smearing_factor_def bandwidth_smearing_def time_smearing_def sinc_def)
  moreover have "- 2 / (3 * pi) < 0" by simp
  ultimately show ?thesis by simp
qed

section \<open>Properties of the correlator\<close>

lemma fold_add_sum_list:
  "fold (\<lambda>s acc. acc + f s) xs (z :: 'e::comm_monoid_add) = z + sum_list (map f xs)"
  by (induction xs arbitrary: z) (simp_all add: add.assoc)

lemma baseline_accumulate_sum:
  "baseline_accumulate mul_herm scale jones smearing sources i j =
     sum_mset (image_mset (\<lambda>s. scale (smearing i j s) (mul_herm (jones i s) (jones j s)))
                 (mset sources))"
proof -
  have "baseline_accumulate mul_herm scale jones smearing sources i j =
          sum_list (map (\<lambda>s. scale (smearing i j s) (mul_herm (jones i s) (jones j s))) sources)"
    by (simp add: baseline_accumulate_def fold_add_sum_list)
  also have "\<dots> = sum_mset (mset (map (\<lambda>s. scale (smearing i j s) (mul_herm (jones i s) (jones j s))) sources))"
    by (simp only: sum_mset_sum_list)
  finally show ?thesis by simp
qed

lemma baseline_accumulate_union:
  assumes "mset sources = mset A + mset B"
  shows "baseline_accumulate mul_herm scale jones smearing sources i j =
           baseline_accumulate mul_herm scale jones smearing A i j +
           baseline_accumulate mul_herm scale jones smearing B i j"
  by (simp add: baseline_accumulate_sum assms)

lemma fold_update_nth:
  assumes "q \<in> set ps" and "inj_on idx (set ps)" and "idx q < length out"
  shows "fold (\<lambda>p out. out[idx p := f p]) ps out ! idx q = f q"
  using assms
proof (induction ps arbitrary: out rule: rev_induct)
  case Nil
  then show ?case by simp
next
  case (snoc p ps)
  have len: "length (fold (\<lambda>p out. out[idx p := f p]) ps out) = length out"
    by (induction ps arbitrary: out) simp_all
  show ?case
  proof (cases "p = q")
    case True
    then show ?thesis using snoc.prems len by simp
  next
    case False
    then have q: "q \<in> set ps" using snoc.prems(1) by simp
    have "idx p \<noteq> idx q" using False snoc.prems(1,2) by (auto simp: inj_on_def)
    moreover have "inj_on idx (set ps)" using snoc.prems(2) by (simp add: inj_on_def)
    ultimately show ?thesis using snoc.IH [OF q _ snoc.prems(3)] by simp
  qed
qed

lemma baseline_index_inj: "inj_on (\<lambda>(i, j). baseline_index n i j) (set (baseline_pairs n))"
proof (rule inj_onI)
  fix p q assume p: "p \<in> set (baseline_pairs n)" and q: "q \<in> set (baseline_pairs n)"
    and eq: "(case p of (i, j) \<Rightarrow> baseline_index n i j) = (case q of (i, j) \<Rightarrow> baseline_index n i j)"
  obtain i j where pij: "p = (i, j)" by (cases p)
  obtain k l where qkl: "q = (k, l)" by (cases q)
  have ij: "i < j" "j < n" and kl: "k < l" "l < n"
    using p q pij qkl by (simp_all add: set_baseline_pairs)
  have same: "baseline_index n i j = baseline_index n k l" using eq pij qkl by simp
  have "(i, j) = baseline_pairs n ! baseline_index n i j"
    using ij by (rule nth_baseline_pairs(2) [symmetric])
  also have "\<dots> = baseline_pairs n ! baseline_index n k l" by (simp only: same)
  also have "\<dots> = (k, l)" using kl by (rule nth_baseline_pairs(2))
  finally show "p = q" by (simp only: pij qkl)
qed

lemma correlate_nth:
  assumes "i < j" "j < n" "n * (n - 1) div 2 \<le> length output"
  shows "correlate mul_herm scale jones smearing sources n output ! baseline_index n i j
           = baseline_accumulate mul_herm scale jones smearing sources i j"
proof -
  let ?idx = "\<lambda>(i, j). baseline_index n i j"
  let ?f = "\<lambda>(i, j). baseline_accumulate mul_herm scale jones smearing sources i j"
  have eq: "correlate mul_herm scale jones smearing sources n output
              = fold (\<lambda>p out. out[?idx p := ?f p]) (baseline_pairs n) output"
    unfolding correlate_def by (rule arg_cong [where f = "\<lambda>g. fold g (baseline_pairs n) output"]) auto
  have mem: "(i, j) \<in> set (baseline_pairs n)" using assms(1,2) by (simp add: set_baseline_pairs)
  have "baseline_index n i j < length (baseline_pairs n)" using assms(1,2) by (rule nth_baseline_pairs)
  then have lt: "?idx (i, j) < length output" using assms(3) by (simp add: length_baseline_pairs)
  show ?thesis
    unfolding eq using fold_update_nth [OF mem baseline_index_inj lt, of ?f] by simp
qed

text \<open>
  Claim C7, in exact arithmetic. When the source list is the union of the source lists
  \<open>A\<close> and \<open>B\<close>, in any order, then for every baseline \<open>(i, j)\<close> of \<open>n\<close> stations the
  visibility that the correlator writes for the union is the sum of the visibilities
  it writes for \<open>A\<close> alone and for \<open>B\<close> alone, the station, Jones and smearing inputs
  being the same. This holds for every product and scaling, hence for the scalar and
  the matrix correlator.
\<close>

theorem C7_accumulation_is_linear_in_sources:
  assumes "mset sources = mset A + mset B"
    and "i < j" and "j < n" and "n * (n - 1) div 2 \<le> length output"
  shows "correlate mul_herm scale jones smearing sources n output ! baseline_index n i j
           = correlate mul_herm scale jones smearing A n output ! baseline_index n i j
           + correlate mul_herm scale jones smearing B n output ! baseline_index n i j"
  using assms by (simp add: correlate_nth baseline_accumulate_union)

theorem C7_accumulation_is_linear_in_sources_witness:
  "correlate_scalar sample_jones sample_smearing [0, 1, 2] 3 [0, 0, 0] ! baseline_index 3 0 2
     = correlate_scalar sample_jones sample_smearing [0, 2] 3 [0, 0, 0] ! baseline_index 3 0 2
     + correlate_scalar sample_jones sample_smearing [1] 3 [0, 0, 0] ! baseline_index 3 0 2 \<and>
   correlate_scalar sample_jones sample_smearing [0, 1, 2] 3 [0, 0, 0]
     = [Complex (7 / 2) (5 / 6), Complex (17 / 5) (13 / 10), Complex (137 / 30) (8 / 15)] \<and>
   correlate_scalar sample_jones sample_smearing [0, 2] 3 [0, 0, 0]
     = [Complex (5 / 2) (1 / 2), Complex (12 / 5) (4 / 5), Complex (19 / 6) (1 / 3)] \<and>
   correlate_scalar sample_jones sample_smearing [1] 3 [0, 0, 0]
     = [Complex 1 (1 / 3), Complex 1 (1 / 2), Complex (7 / 5) (1 / 5)]"
proof -
  have h1: "mset [0, 1, 2 :: nat] = mset [0, 2] + mset [1]" by simp
  have h2: "(0 :: nat) < 2" and h3: "(2 :: nat) < 3" by simp_all
  have h4: "(3 :: nat) * (3 - 1) div 2 \<le> length [0, 0, 0 :: complex]" by simp
  have sum: "correlate_scalar sample_jones sample_smearing [0, 1, 2] 3 [0, 0, 0] ! baseline_index 3 0 2
     = correlate_scalar sample_jones sample_smearing [0, 2] 3 [0, 0, 0] ! baseline_index 3 0 2
     + correlate_scalar sample_jones sample_smearing [1] 3 [0, 0, 0] ! baseline_index 3 0 2"
    unfolding correlate_scalar_def
    by (rule C7_accumulation_is_linear_in_sources [OF h1 h2 h3 h4])
  have all: "correlate_scalar sample_jones sample_smearing [0, 1, 2] 3 [0, 0, 0]
     = [Complex (7 / 2) (5 / 6), Complex (17 / 5) (13 / 10), Complex (137 / 30) (8 / 15)]"
    by code_simp
  have a: "correlate_scalar sample_jones sample_smearing [0, 2] 3 [0, 0, 0]
     = [Complex (5 / 2) (1 / 2), Complex (12 / 5) (4 / 5), Complex (19 / 6) (1 / 3)]"
    by code_simp
  have b: "correlate_scalar sample_jones sample_smearing [1] 3 [0, 0, 0]
     = [Complex 1 (1 / 3), Complex 1 (1 / 2), Complex (7 / 5) (1 / 5)]"
    by code_simp
  show ?thesis using sum all a b by (intro conjI)
qed

end
